theory Spec2Isabelle
  imports Complex_Main
begin

section \<open>Segment difficulty utilities (src/utils/segmentDifficulty.js)\<close>

text \<open>
  A shallow embedding of the difficulty scoring engine.

  Conventions of the embedding:
  \<^item> A JavaScript Number is a mathematical real: arithmetic is exact, and the inputs
    are finite numbers. The one place where the code itself produces \<open>NaN\<close> from
    finite data, \<open>parseInt\<close>, keeps it as a value of its own (\<open>NaN\<close> below); the
    integer \<open>parseInt\<close> reads is exact, as the code's is below \<open>2 ^ 53\<close>. Where the
    rounding of binary64 decides a claim, \<open>calculateRequiredW64\<close> repeats the
    computation with every operation rounded.
  \<^item> A JavaScript string is the list of its UTF-16 code units (natural numbers);
    \<open>ascii\<close> turns an ASCII literal into such a list. The dash placeholder of the
    source is the single code unit U+2014 (8212).
  \<^item> \<open>undefined\<close> and \<open>null\<close> are kept apart (\<open>Undefined\<close>, \<open>Null\<close>).
  \<^item> A thrown exception is the left summand of the result (\<open>Inl TypeError\<close>).
  \<^item> The call of \<open>console.log\<close> on the rejecting branch returns nothing and
    changes no value of the program; the embedding leaves it out.
\<close>

subsection \<open>Values\<close>

type_synonym jsstring = "nat list"

definition ascii :: "string \<Rightarrow> jsstring" where
  "ascii s = map of_char s"

datatype 'a nullable = Undefined | Null | Val 'a

datatype jsval = JUndefined | JNull | Num real | Str jsstring

datatype jsint = NaN | Integer int

datatype js_error = TypeError

text \<open>\<open>!x\<close> on an optional number: \<open>undefined\<close>, \<open>null\<close> and \<open>0\<close> are falsy.\<close>

fun js_not :: "real nullable \<Rightarrow> bool" where
  "js_not Undefined = True"
| "js_not Null = True"
| "js_not (Val r) = (r = 0)"

text \<open>\<open>x <= 0\<close>: \<open>undefined\<close> converts to NaN (every comparison false), \<open>null\<close> to 0.\<close>

fun le_zero :: "real nullable \<Rightarrow> bool" where
  "le_zero Undefined = False"
| "le_zero Null = True"
| "le_zero (Val r) = (r \<le> 0)"

text \<open>\<open>x == null\<close>.\<close>

fun eq_null :: "'a nullable \<Rightarrow> bool" where
  "eq_null Undefined = True"
| "eq_null Null = True"
| "eq_null (Val _) = False"

text \<open>\<open>!x\<close> on a value that may be a string or a number.\<close>

fun js_not_val :: "jsval \<Rightarrow> bool" where
  "js_not_val JUndefined = True"
| "js_not_val JNull = True"
| "js_not_val (Num r) = (r = 0)"
| "js_not_val (Str s) = (s = [])"

subsection \<open>Constants\<close>

definition PHYSICS_g :: real where "PHYSICS_g = 9.81"
definition PHYSICS_rho :: real where "PHYSICS_rho = 1.2"
definition PHYSICS_bikeMass :: real where "PHYSICS_bikeMass = 8"
definition PHYSICS_Crr :: real where "PHYSICS_Crr = 0.004"
definition PHYSICS_CdA :: real where "PHYSICS_CdA = 0.28"
definition PHYSICS_eta :: real where "PHYSICS_eta = 0.98"

definition CP_MODEL_Pmax :: real where "CP_MODEL_Pmax = 21.80"
definition CP_MODEL_CP :: real where "CP_MODEL_CP = 4.77"
definition CP_MODEL_Wprime :: real where "CP_MODEL_Wprime = 280"

definition APR :: real where "APR = CP_MODEL_Pmax - CP_MODEL_CP"
definition W_APR :: real where "W_APR = CP_MODEL_Wprime * APR"

subsection \<open>Difficulty classes\<close>

record level =
  level_min :: real
  level_class :: jsstring
  level_label :: jsstring
  level_color :: jsstring

text \<open>
  The object \<open>getDifficultyClass\<close> returns: \<open>class\<close>, \<open>label\<close>, \<open>color\<close>, and the
  property \<open>min\<close> when the object is an entry of the table itself (\<open>None\<close>: the property
  is absent).
\<close>

record difficulty_class =
  class_tag :: jsstring
  label :: jsstring
  color :: jsstring
  min_prop :: "real option"

definition DIFFICULTY_CLASSES :: "level list" where
  "DIFFICULTY_CLASSES =
    [\<lparr>level_min = 150, level_class = ascii ''suspicious'', level_label = ascii ''hmmmm'',
       level_color = ascii ''#6b7280''\<rparr>,
     \<lparr>level_min = 130, level_class = ascii ''extreme'', level_label = ascii ''Extrem'',
       level_color = ascii ''#7c3aed''\<rparr>,
     \<lparr>level_min = 110, level_class = ascii ''very-hard'', level_label = ascii ''Sehr schwer'',
       level_color = ascii ''#dc2626''\<rparr>,
     \<lparr>level_min = 90, level_class = ascii ''hard'', level_label = ascii ''Schwer'',
       level_color = ascii ''#ea580c''\<rparr>,
     \<lparr>level_min = 70, level_class = ascii ''moderate'', level_label = ascii ''Moderat'',
       level_color = ascii ''#ca8a04''\<rparr>,
     \<lparr>level_min = 50, level_class = ascii ''accessible'', level_label = ascii ''Machbar'',
       level_color = ascii ''#16a34a''\<rparr>,
     \<lparr>level_min = 0, level_class = ascii ''easy'', level_label = ascii ''Einfach'',
       level_color = ascii ''#22c55e''\<rparr>]"

subsection \<open>Helper functions\<close>

text \<open>
  The white space \<open>String.prototype.trim\<close> and \<open>parseInt\<close> strip: TAB, LF, VT, FF, CR,
  SP, NBSP, U+1680, U+2000 to U+200A, U+2028, U+2029, U+202F, U+205F, U+3000, U+FEFF.
\<close>

definition is_ws :: "nat \<Rightarrow> bool" where
  "is_ws c = (c = 9 \<or> c = 10 \<or> c = 11 \<or> c = 12 \<or> c = 13 \<or> c = 32 \<or> c = 160
     \<or> c = 5760 \<or> (8192 \<le> c \<and> c \<le> 8202) \<or> c = 8232 \<or> c = 8233 \<or> c = 8239
     \<or> c = 8287 \<or> c = 12288 \<or> c = 65279)"

text \<open>The class \<open>\d\<close> of a regular expression and the digits of radix 10: 0 to 9.\<close>

definition is_digit :: "nat \<Rightarrow> bool" where
  "is_digit c = (48 \<le> c \<and> c \<le> 57)"

definition trim :: "jsstring \<Rightarrow> jsstring" where
  "trim s = rev (dropWhile is_ws (rev (dropWhile is_ws s)))"

text \<open>\<open>/^\d+s?$/.test(clean)\<close>: one digit or more, then an optional \<open>s\<close>, then the end.\<close>

definition test_digits_s :: "jsstring \<Rightarrow> bool" where
  "test_digits_s clean =
     (let ds = takeWhile is_digit clean; rest = dropWhile is_digit clean
      in ds \<noteq> [] \<and> (rest = [] \<or> rest = ascii ''s''))"

text \<open>\<open>clean.split(':')\<close>: the pieces between the colons (code unit 58), never none.\<close>

fun split_colon :: "jsstring \<Rightarrow> jsstring list" where
  "split_colon [] = [[]]"
| "split_colon (c # cs) =
     (if c = 58 then [] # split_colon cs
      else (case split_colon cs of
              [] \<Rightarrow> [[c]]
            | p # ps \<Rightarrow> (c # p) # ps))"

text \<open>The number a string of decimal digits denotes.\<close>

definition digits_value :: "jsstring \<Rightarrow> nat" where
  "digits_value ds = foldl (\<lambda>acc c. 10 * acc + (c - 48)) 0 ds"

text \<open>
  \<open>parseInt(str, 10)\<close>: skip leading white space, read an optional sign, take the
  longest run of digits; no digit gives \<open>NaN\<close>, and what follows the digits is ignored.
\<close>

definition parseInt :: "jsstring \<Rightarrow> jsint" where
  "parseInt str =
     (let S = dropWhile is_ws str;
          sign = (if S \<noteq> [] \<and> hd S = 45 then - 1 else 1);
          S' = (if S \<noteq> [] \<and> (hd S = 43 \<or> hd S = 45) then tl S else S);
          Z = takeWhile is_digit S'
      in if Z = [] then NaN else Integer (sign * int (digits_value Z)))"

fun isNaN :: "jsint \<Rightarrow> bool" where
  "isNaN NaN = True"
| "isNaN (Integer _) = False"

text \<open>
  \<open>parseKomTime\<close>. \<open>timeStr.trim()\<close> on a number that passed the first test (a number
  other than 0) throws a TypeError: a number has no method \<open>trim\<close>.
\<close>

definition parseKomTime :: "jsval \<Rightarrow> js_error + jsint nullable" where
  "parseKomTime timeStr =
     (if js_not_val timeStr \<or> timeStr = Str [8212] then Inr Null
      else case timeStr of
        Str s \<Rightarrow>
          (let clean = trim s in
           if test_digits_s clean then Inr (Val (parseInt clean))
           else
             (let parts = map parseInt (split_colon clean) in
              if list_ex isNaN parts then Inr Null
              else (case parts of
                      [Integer a, Integer b] \<Rightarrow> Inr (Val (Integer (a * 60 + b)))
                    | [Integer a, Integer b, Integer c] \<Rightarrow>
                        Inr (Val (Integer (a * 3600 + b * 60 + c)))
                    | _ \<Rightarrow> Inr Null)))
      | _ \<Rightarrow> Inl TypeError)"

definition referencePower :: "real \<Rightarrow> real" where
  "referencePower t =
     (if t \<le> 0 then CP_MODEL_Pmax
      else CP_MODEL_CP + W_APR / (CP_MODEL_Wprime + APR * t))"

record power_result =
  P_total :: real
  P_totalWkg :: real

definition calculateRequiredW :: "real \<Rightarrow> real \<Rightarrow> real \<Rightarrow> real \<Rightarrow> power_result" where
  "calculateRequiredW distance elevation timeSeconds riderMass =
     (let v = distance / timeSeconds;
          grade = elevation / distance;
          totalMass = riderMass + PHYSICS_bikeMass;
          P_gravity = totalMass * PHYSICS_g * v * grade;
          P_rolling = totalMass * PHYSICS_g * v * PHYSICS_Crr;
          P_aero = 0.5 * PHYSICS_rho * PHYSICS_CdA * v * v * v;
          P_tot = (P_gravity + P_rolling + P_aero) / PHYSICS_eta
      in \<lparr>P_total = P_tot, P_totalWkg = P_tot / riderMass\<rparr>)"

text \<open>The loop of \<open>getDifficultyClass\<close> over the table: the first level reached wins.\<close>

fun first_level :: "level list \<Rightarrow> real \<Rightarrow> difficulty_class option" where
  "first_level [] score = None"
| "first_level (l # ls) score =
     (if score \<ge> level_min l
      then Some \<lparr>class_tag = level_class l, label = level_label l, color = level_color l,
                 min_prop = None\<rparr>
      else first_level ls score)"

definition getDifficultyClass :: "real \<Rightarrow> difficulty_class" where
  "getDifficultyClass score =
     (case first_level DIFFICULTY_CLASSES score of
        Some c \<Rightarrow> c
      | None \<Rightarrow>
          (let l = DIFFICULTY_CLASSES ! (length DIFFICULTY_CLASSES - 1)
           in \<lparr>class_tag = level_class l, label = level_label l, color = level_color l,
               min_prop = Some (level_min l)\<rparr>))"

subsection \<open>Main export\<close>

record difficulty_result =
  komPower :: "real nullable"
  komPowerWKg :: "real nullable"
  difficultyScore :: "real nullable"
  difficultyClass :: difficulty_class
  isValid :: bool

definition defaultResult :: difficulty_result where
  "defaultResult =
     \<lparr>komPower = Null, komPowerWKg = Null, difficultyScore = Null,
      difficultyClass = \<lparr>class_tag = ascii ''unknown'', label = [8212],
                         color = ascii ''#9ca3af'', min_prop = None\<rparr>,
      isValid = False\<rparr>"

text \<open>\<open>!komSeconds || komSeconds <= 0\<close> on what \<open>parseKomTime\<close> returned.\<close>

fun not_positive :: "jsint nullable \<Rightarrow> bool" where
  "not_positive (Val (Integer n)) = (n = 0 \<or> n \<le> 0)"
| "not_positive _ = True"

text \<open>
  \<open>calculateSegmentDifficulty({distance, elevation, komTime, riderMass})\<close>. Past the
  validation the three numbers and the seconds are present; the last case of the
  pattern match stands for the values the validation has excluded.
\<close>

definition calculateSegmentDifficulty ::
    "real nullable \<Rightarrow> real nullable \<Rightarrow> jsval \<Rightarrow> real nullable \<Rightarrow> js_error + difficulty_result" where
  "calculateSegmentDifficulty distance elevation komTime riderMass =
     (if (js_not distance \<or> le_zero distance)
         \<or> eq_null elevation
         \<or> (js_not riderMass \<or> le_zero riderMass)
         \<or> js_not_val komTime
      then Inr defaultResult
      else if js_not distance \<or> le_zero distance then Inr defaultResult
      else if eq_null elevation then Inr defaultResult
      else if js_not riderMass \<or> le_zero riderMass then Inr defaultResult
      else case parseKomTime komTime of
        Inl e \<Rightarrow> Inl e
      | Inr komSeconds \<Rightarrow>
          if not_positive komSeconds then Inr defaultResult
          else (case (distance, elevation, komSeconds, riderMass) of
                  (Val d, Val e, Val (Integer t), Val m) \<Rightarrow>
                    (let powerResult = calculateRequiredW d e (of_int t) m;
                         komPower = P_total powerResult;
                         komPowerWKg = P_totalWkg powerResult;
                         refPower = referencePower (of_int t);
                         difficultyScore = (komPowerWKg / refPower) * 100;
                         difficultyClass = getDifficultyClass difficultyScore
                     in Inr \<lparr>komPower = Val komPower, komPowerWKg = Val komPowerWKg,
                             difficultyScore = Val difficultyScore,
                             difficultyClass = difficultyClass, isValid = True\<rparr>)
                | _ \<Rightarrow> Inr defaultResult))"

subsection \<open>The wrapper over a segment record\<close>

record segment_data =
  data_distance :: "real nullable"
  data_elev_difference :: "real nullable"

record segment_xoms =
  xoms_kom :: jsval

record segment_details =
  details_distance :: "real nullable"
  details_total_elevation_gain :: "real nullable"
  details_xoms :: "segment_xoms nullable"

record segment =
  data :: "segment_data nullable"
  details :: "segment_details nullable"

text \<open>\<open>obj?.field\<close>: \<open>undefined\<close> when the object is \<open>undefined\<close> or \<open>null\<close>.\<close>

fun opt_chain :: "'a nullable \<Rightarrow> ('a \<Rightarrow> 'b nullable) \<Rightarrow> 'b nullable" where
  "opt_chain (Val obj) field = field obj"
| "opt_chain _ field = Undefined"

fun opt_chain_val :: "'a nullable \<Rightarrow> ('a \<Rightarrow> jsval) \<Rightarrow> jsval" where
  "opt_chain_val (Val obj) field = field obj"
| "opt_chain_val _ field = JUndefined"

text \<open>\<open>a || b\<close> on optional numbers, and \<open>a ?? b\<close>.\<close>

definition js_or :: "real nullable \<Rightarrow> real nullable \<Rightarrow> real nullable" where
  "js_or a b = (if js_not a then b else a)"

definition js_coalesce :: "'a nullable \<Rightarrow> 'a nullable \<Rightarrow> 'a nullable" where
  "js_coalesce a b = (if eq_null a then b else a)"

definition getSegmentDifficulty :: "segment \<Rightarrow> real nullable \<Rightarrow> js_error + difficulty_result" where
  "getSegmentDifficulty seg riderMass =
     (let distance = js_or (opt_chain (details seg) details_distance)
                           (opt_chain (data seg) data_distance);
          elevation = js_coalesce
                        (js_coalesce (opt_chain (data seg) data_elev_difference)
                                     (opt_chain (details seg) details_total_elevation_gain))
                        (Val 0);
          komTime = opt_chain_val (opt_chain (details seg) details_xoms) xoms_kom
      in calculateSegmentDifficulty distance elevation komTime riderMass)"

subsection \<open>The normalization of a segment record, as claim C10 words it\<close>

text \<open>
  These definitions follow the words of the claim, not the source: the field of a record
  that is absent is absent; the distance is \<open>details.distance\<close> when truthy, otherwise
  \<open>data.distance\<close>; the elevation is \<open>data.elev_difference\<close> when it is neither
  \<open>null\<close> nor \<open>undefined\<close>, otherwise \<open>details.total_elevation_gain\<close>, otherwise 0;
  the time is \<open>details.xoms.kom\<close>. They are compared with \<open>getSegmentDifficulty\<close> below.
\<close>

definition data_field :: "segment \<Rightarrow> (segment_data \<Rightarrow> real nullable) \<Rightarrow> real nullable" where
  "data_field seg f = (case data seg of Val da \<Rightarrow> f da | _ \<Rightarrow> Undefined)"

definition details_field :: "segment \<Rightarrow> (segment_details \<Rightarrow> real nullable) \<Rightarrow> real nullable" where
  "details_field seg f = (case details seg of Val dt \<Rightarrow> f dt | _ \<Rightarrow> Undefined)"

definition normalized_distance :: "segment \<Rightarrow> real nullable" where
  "normalized_distance seg =
     (case details_field seg details_distance of
        Val x \<Rightarrow> if x \<noteq> 0 then Val x else data_field seg data_distance
      | _ \<Rightarrow> data_field seg data_distance)"

definition normalized_elevation :: "segment \<Rightarrow> real nullable" where
  "normalized_elevation seg =
     (case data_field seg data_elev_difference of
        Val x \<Rightarrow> Val x
      | _ \<Rightarrow> (case details_field seg details_total_elevation_gain of
                Val y \<Rightarrow> Val y
              | _ \<Rightarrow> Val 0))"

definition normalized_komTime :: "segment \<Rightarrow> jsval" where
  "normalized_komTime seg =
     (case details seg of
        Val dt \<Rightarrow> (case details_xoms dt of Val xo \<Rightarrow> xoms_kom xo | _ \<Rightarrow> JUndefined)
      | _ \<Rightarrow> JUndefined)"

definition missing_elevation :: "segment \<Rightarrow> bool" where
  "missing_elevation seg =
     (eq_null (data_field seg data_elev_difference)
      \<and> eq_null (details_field seg details_total_elevation_gain))"

subsection \<open>The required power in binary64\<close>

text \<open>
  Where rounding decides a claim (C9), \<open>calculateRequiredW\<close> is repeated with the
  arithmetic of the source: every operation rounds its exact result to the nearest
  binary64 number, ties to the even significand.

  \<open>rnd\<close> is that rounding on the reals: 53 binary digits, the exponent of the unit in the
  last place not below -1074 (gradual underflow). \<open>round64\<close> adds the overflow: a result
  of magnitude \<open>2 ^ 1024\<close> or more is no finite number. A value of type \<open>f64\<close> is a
  finite number (\<open>Some\<close>) or a value that is not finite (\<open>None\<close>: an infinity or NaN).
  \<open>None\<close> absorbs in a sum and in a product, as infinities and NaN do up to the kind of
  the result; a quotient takes a finite divisor, and a divisor 0 gives \<open>None\<close>. Signed
  zeros are not kept apart.
\<close>

definition round_even :: "real \<Rightarrow> int" where
  "round_even y =
     (let f = \<lfloor>y\<rfloor>; r = y - of_int f
      in if r < 1 / 2 then f else if 1 / 2 < r then f + 1 else if even f then f else f + 1)"

definition binade :: "real \<Rightarrow> int" where
  "binade x = max \<lfloor>log 2 \<bar>x\<bar>\<rfloor> (- 1022)"

definition rnd :: "real \<Rightarrow> real" where
  "rnd x =
     (if x = 0 then 0
      else of_int (round_even (x / 2 powi (binade x - 52))) * 2 powi (binade x - 52))"

type_synonym f64 = "real option"

definition round64 :: "real \<Rightarrow> f64" where
  "round64 x = (if \<bar>rnd x\<bar> < 2 ^ 1024 then Some (rnd x) else None)"

text \<open>A numeric literal or constant of the source: the binary64 number nearest to it.\<close>

definition lit :: "real \<Rightarrow> f64" where
  "lit x = round64 x"

definition fadd :: "f64 \<Rightarrow> f64 \<Rightarrow> f64" where
  "fadd a b = (case (a, b) of (Some x, Some y) \<Rightarrow> round64 (x + y) | _ \<Rightarrow> None)"

definition fmul :: "f64 \<Rightarrow> f64 \<Rightarrow> f64" where
  "fmul a b = (case (a, b) of (Some x, Some y) \<Rightarrow> round64 (x * y) | _ \<Rightarrow> None)"

definition fdiv :: "f64 \<Rightarrow> real \<Rightarrow> f64" where
  "fdiv a y = (case a of Some x \<Rightarrow> if y = 0 then None else round64 (x / y) | None \<Rightarrow> None)"

record power_result64 =
  P_total64 :: f64
  P_totalWkg64 :: f64

text \<open>
  \<open>calculateRequiredW\<close> on binary64 arguments, operation by operation in the order of the
  source (\<open>a * b * c\<close> is \<open>(a * b) * c\<close>). The divisors are arguments and the constant
  \<open>eta\<close>.
\<close>

definition calculateRequiredW64 :: "real \<Rightarrow> real \<Rightarrow> real \<Rightarrow> real \<Rightarrow> power_result64" where
  "calculateRequiredW64 distance elevation timeSeconds riderMass =
     (let v = fdiv (Some distance) timeSeconds;
          grade = fdiv (Some elevation) distance;
          totalMass = fadd (Some riderMass) (lit PHYSICS_bikeMass);
          P_gravity = fmul (fmul (fmul totalMass (lit PHYSICS_g)) v) grade;
          P_rolling = fmul (fmul (fmul totalMass (lit PHYSICS_g)) v) (lit PHYSICS_Crr);
          P_aero = fmul (fmul (fmul (fmul (fmul (lit 0.5) (lit PHYSICS_rho)) (lit PHYSICS_CdA)) v) v) v;
          P_tot = (case lit PHYSICS_eta of
                     Some eta \<Rightarrow> fdiv (fadd (fadd P_gravity P_rolling) P_aero) eta
                   | None \<Rightarrow> None)
      in \<lparr>P_total64 = P_tot, P_totalWkg64 = fdiv P_tot riderMass\<rparr>)"

text \<open>The order of two values when both are finite, and the sign of one, for the proofs.\<close>

definition le64 :: "f64 \<Rightarrow> f64 \<Rightarrow> bool" where
  "le64 a b = (case (a, b) of (Some x, Some y) \<Rightarrow> x \<le> y | _ \<Rightarrow> True)"

definition nonneg64 :: "f64 \<Rightarrow> bool" where
  "nonneg64 a = (case a of Some x \<Rightarrow> 0 \<le> x | None \<Rightarrow> True)"

section \<open>Properties\<close>

subsection \<open>Evaluation lemmas\<close>

lemmas parse_eval = parseKomTime_def ascii_def trim_def is_ws_def test_digits_s_def
  is_digit_def parseInt_def digits_value_def

lemma parseKomTime_format_examples:
  "parseKomTime (Str (ascii ''45'')) = Inr (Val (Integer 45))"
  "parseKomTime (Str (ascii ''45s'')) = Inr (Val (Integer 45))"
  "parseKomTime (Str (ascii ''5:30'')) = Inr (Val (Integer 330))"
  "parseKomTime (Str (ascii ''1:23:45'')) = Inr (Val (Integer 5025))"
  "parseKomTime (Str (ascii '''')) = Inr Null"
  "parseKomTime (Str [8212]) = Inr Null"
  "parseKomTime (Str (ascii ''abc'')) = Inr Null"
  by (simp_all add: parse_eval)

lemma first_level_table:
  "first_level DIFFICULTY_CLASSES score =
     (if 150 \<le> score then Some \<lparr>class_tag = ascii ''suspicious'', label = ascii ''hmmmm'',
                                 color = ascii ''#6b7280'', min_prop = None\<rparr>
      else if 130 \<le> score then Some \<lparr>class_tag = ascii ''extreme'', label = ascii ''Extrem'',
                                 color = ascii ''#7c3aed'', min_prop = None\<rparr>
      else if 110 \<le> score then Some \<lparr>class_tag = ascii ''very-hard'',
                                 label = ascii ''Sehr schwer'',
                                 color = ascii ''#dc2626'', min_prop = None\<rparr>
      else if 90 \<le> score then Some \<lparr>class_tag = ascii ''hard'', label = ascii ''Schwer'',
                                 color = ascii ''#ea580c'', min_prop = None\<rparr>
      else if 70 \<le> score then Some \<lparr>class_tag = ascii ''moderate'', label = ascii ''Moderat'',
                                 color = ascii ''#ca8a04'', min_prop = None\<rparr>
      else if 50 \<le> score then Some \<lparr>class_tag = ascii ''accessible'', label = ascii ''Machbar'',
                                 color = ascii ''#16a34a'', min_prop = None\<rparr>
      else if 0 \<le> score then Some \<lparr>class_tag = ascii ''easy'', label = ascii ''Einfach'',
                                 color = ascii ''#22c55e'', min_prop = None\<rparr>
      else None)"
  by (simp add: DIFFICULTY_CLASSES_def)

lemma getDifficultyClass_class:
  "class_tag (getDifficultyClass score) =
     (if 150 \<le> score then ascii ''suspicious''
      else if 130 \<le> score then ascii ''extreme''
      else if 110 \<le> score then ascii ''very-hard''
      else if 90 \<le> score then ascii ''hard''
      else if 70 \<le> score then ascii ''moderate''
      else if 50 \<le> score then ascii ''accessible''
      else ascii ''easy'')"
  unfolding getDifficultyClass_def first_level_table
  by (simp add: DIFFICULTY_CLASSES_def)

subsection \<open>The classifier\<close>

text \<open>
  Claim C5. The classifier is total over the real scores and takes the first level, from
  the highest threshold down, that the score reaches: 150 is \<open>suspicious\<close>, 149.999 is
  \<open>extreme\<close>, 0 is \<open>easy\<close>, and -5 reaches no level and falls through to the last
  one, \<open>easy\<close>. Whatever the score, the class is one of the seven classes of the table
  and never \<open>unknown\<close>.
\<close>

theorem getDifficultyClass_total:
  "class_tag (getDifficultyClass 150) = ascii ''suspicious''
   \<and> class_tag (getDifficultyClass 149.999) = ascii ''extreme''
   \<and> class_tag (getDifficultyClass 0) = ascii ''easy''
   \<and> class_tag (getDifficultyClass (- 5)) = ascii ''easy''
   \<and> (\<forall>score. class_tag (getDifficultyClass score) \<in> set (map level_class DIFFICULTY_CLASSES)
          \<and> class_tag (getDifficultyClass score) \<noteq> ascii ''unknown'')
   \<and> (\<forall>score. class_tag (getDifficultyClass score) =
         (if 150 \<le> score then ascii ''suspicious''
          else if 130 \<le> score then ascii ''extreme''
          else if 110 \<le> score then ascii ''very-hard''
          else if 90 \<le> score then ascii ''hard''
          else if 70 \<le> score then ascii ''moderate''
          else if 50 \<le> score then ascii ''accessible''
          else ascii ''easy''))"
proof -
  have cls: "\<And>score. class_tag (getDifficultyClass score) \<in> set (map level_class DIFFICULTY_CLASSES)"
    unfolding getDifficultyClass_class by (simp add: DIFFICULTY_CLASSES_def)
  have unk: "\<And>score. class_tag (getDifficultyClass score) \<noteq> ascii ''unknown''"
    unfolding getDifficultyClass_class by (simp add: ascii_def)
  show ?thesis
    using cls unk by (simp add: getDifficultyClass_class)
qed

subsection \<open>The duration parser\<close>

text \<open>
  Claim C6. The claim has \<open>"5:3a"\<close> rejected, as a string with a component that is not
  a pure integer. \<open>parseInt\<close> reads the leading digits of \<open>"3a"\<close> and ignores the rest,
  so the test \<open>parts.some(isNaN)\<close>, there to reject such components, lets the string
  through and the code returns 5 * 60 + 3 = 303 seconds. (The other seven examples of the
  claim are \<open>parseKomTime_format_examples\<close>.)
\<close>

theorem parseKomTime_trailing_garbage:
  "parseKomTime (Str (ascii ''5:3a'')) = Inr (Val (Integer 303))"
  by (simp add: parse_eval)

text \<open>
  Claim C7. The claim has every result a non-negative count of seconds or \<open>null\<close>.
  \<open>parseInt\<close> accepts a sign, so on \<open>"-5:30"\<close>, a string of none of the documented
  formats, the code returns -5 * 60 + 30 = -270 instead of \<open>null\<close>.
\<close>

theorem parseKomTime_negative:
  "parseKomTime (Str (ascii ''-5:30'')) = Inr (Val (Integer (- 270)))"
  by (simp add: parse_eval)

text \<open>
  What does hold of the parser on every string: it throws nothing and returns \<open>null\<close>
  or an integer, never \<open>NaN\<close>; and the integer is non-negative when the string has no
  minus sign (code unit 45). The seconds-only path is strict where the colon path is
  not: a lone component with trailing text or a sign is rejected.
\<close>

lemma parseKomTime_single_component_strict:
  "parseKomTime (Str (ascii ''3a'')) = Inr Null"
  "parseKomTime (Str (ascii ''-45'')) = Inr Null"
  by (simp_all add: parse_eval)

lemma parseInt_of_digits:
  assumes "test_digits_s c"
  shows "parseInt c = Integer (int (digits_value (takeWhile is_digit c)))"
proof -
  from assms have ne: "takeWhile is_digit c \<noteq> []"
    by (simp add: test_digits_s_def Let_def)
  then obtain x xs where c: "c = x # xs" and x: "is_digit x"
    by (cases c) (auto split: if_splits)
  from x have "\<not> is_ws x" "x \<noteq> 43" "x \<noteq> 45"
    by (auto simp: is_digit_def is_ws_def)
  then show ?thesis
    using ne c by (simp add: parseInt_def Let_def)
qed

lemma parseInt_nonneg:
  assumes "45 \<notin> set p" "parseInt p = Integer n"
  shows "0 \<le> n"
proof -
  have "set (dropWhile is_ws p) \<subseteq> set p"
    by (rule set_dropWhileD[THEN subsetI]) 
  then have "dropWhile is_ws p \<noteq> [] \<Longrightarrow> hd (dropWhile is_ws p) \<noteq> 45"
    using assms(1) by (metis hd_in_set subsetD)
  then show ?thesis
    using assms(2) by (auto simp: parseInt_def Let_def split: if_splits)
qed

lemma split_colon_nonempty: "split_colon cs \<noteq> []"
  by (induction cs) (auto split: list.splits)

lemma split_colon_set: "p \<in> set (split_colon cs) \<Longrightarrow> set p \<subseteq> set cs"
proof (induction cs arbitrary: p)
  case Nil
  then show ?case by simp
next
  case (Cons c cs)
  show ?case
  proof (cases "c = 58")
    case True
    then show ?thesis using Cons by auto
  next
    case False
    obtain q qs where q: "split_colon cs = q # qs"
      using split_colon_nonempty by (cases "split_colon cs") auto
    with False Cons.prems have "p = c # q \<or> p \<in> set qs" by simp
    then show ?thesis
      using Cons.IH q by fastforce
  qed
qed

lemma set_trim: "set (trim s) \<subseteq> set s"
proof -
  have "set (trim s) \<subseteq> set (dropWhile is_ws s)"
    unfolding trim_def using set_dropWhileD[of _ is_ws "rev (dropWhile is_ws s)"] by auto
  also have "\<dots> \<subseteq> set s"
    using set_dropWhileD[of _ is_ws s] by auto
  finally show ?thesis .
qed

lemma parseKomTime_integer_or_null:
  "parseKomTime (Str s) = Inr Null \<or> (\<exists>n. parseKomTime (Str s) = Inr (Val (Integer n)))"
  by (auto simp: parseKomTime_def Let_def parseInt_of_digits split: list.splits jsint.splits)

lemma parseKomTime_nonneg:
  assumes "45 \<notin> set s" "parseKomTime (Str s) = Inr (Val (Integer n))"
  shows "0 \<le> n"
proof (cases "test_digits_s (trim s)")
  case True
  then show ?thesis
    using assms(2) by (auto simp: parseKomTime_def Let_def parseInt_of_digits split: if_splits)
next
  case False
  have nn: "\<And>p k. p \<in> set (split_colon (trim s)) \<Longrightarrow> parseInt p = Integer k \<Longrightarrow> 0 \<le> k"
    using assms(1) split_colon_set set_trim parseInt_nonneg by (meson subsetD)
  from False assms(2) consider
      (two) p q a b where "split_colon (trim s) = [p, q]" "parseInt p = Integer a"
        "parseInt q = Integer b" "n = a * 60 + b"
    | (three) p q r a b c where "split_colon (trim s) = [p, q, r]" "parseInt p = Integer a"
        "parseInt q = Integer b" "parseInt r = Integer c" "n = a * 3600 + b * 60 + c"
    by (auto simp: parseKomTime_def Let_def split: if_splits list.splits jsint.splits)
  then show ?thesis
  proof cases
    case two
    then have "0 \<le> a" "0 \<le> b" using nn by auto
    then show ?thesis using two by simp
  next
    case three
    then have "0 \<le> a" "0 \<le> b" "0 \<le> c" using nn by auto
    then show ?thesis using three by simp
  qed
qed

subsection \<open>The reference power curve\<close>

lemmas cp_consts = CP_MODEL_Pmax_def CP_MODEL_CP_def CP_MODEL_Wprime_def APR_def W_APR_def

lemma referencePower_pos_formula:
  "0 < t \<Longrightarrow> referencePower t = 4.77 + 4768.4 / (280 + 17.03 * t)"
  by (simp add: referencePower_def cp_consts)

lemma referencePower_nonpos: "t \<le> 0 \<Longrightarrow> referencePower t = 21.80"
  by (simp add: referencePower_def cp_consts)

lemma referencePower_antimono:
  assumes "0 < t1" "t1 < t2"
  shows "referencePower t2 < referencePower t1"
proof -
  have d1: "0 < 280 + 17.03 * t1" using assms by simp
  have d12: "280 + 17.03 * t1 < 280 + 17.03 * t2" using assms by simp
  have "(4768.4::real) / (280 + 17.03 * t2) < 4768.4 / (280 + 17.03 * t1)"
    using d1 d12 by (intro divide_strict_left_mono) (auto intro: mult_pos_pos)
  then show ?thesis
    using assms by (simp add: referencePower_pos_formula)
qed

lemma referencePower_limit: "(referencePower \<longlongrightarrow> 4.77) at_top"
proof -
  have den: "LIM t at_top. 280 + 17.03 * t :> (at_top :: real filter)"
    by (intro filterlim_tendsto_add_at_top[OF tendsto_const]
              filterlim_tendsto_pos_mult_at_top[OF tendsto_const _ filterlim_ident]) simp
  have "((\<lambda>t::real. 4768.4 / (280 + 17.03 * t)) \<longlongrightarrow> 0) at_top"
    by (rule tendsto_divide_0[OF tendsto_const filterlim_at_top_imp_at_infinity[OF den]])
  then have "((\<lambda>t::real. 4.77 + 4768.4 / (280 + 17.03 * t)) \<longlongrightarrow> 4.77 + 0) at_top"
    by (intro tendsto_add tendsto_const)
  then have lim: "((\<lambda>t::real. 4.77 + 4768.4 / (280 + 17.03 * t)) \<longlongrightarrow> 4.77) at_top"
    by simp
  have "eventually (\<lambda>t. referencePower t = 4.77 + 4768.4 / (280 + 17.03 * t)) at_top"
    using eventually_gt_at_top[of "0::real"]
    by eventually_elim (simp add: referencePower_pos_formula)
  then show ?thesis
    using lim by (simp add: tendsto_cong)
qed

lemma referencePower_100000: "\<bar>referencePower 100000 - 4.77\<bar> < 0.003"
  by (simp add: referencePower_pos_formula)

text \<open>
  Claim C4. On positive durations the reference power does not increase: for
  \<open>0 < t1 < t2\<close>, \<open>referencePower t1 \<ge> referencePower t2\<close>. For \<open>t \<le> 0\<close> it is
  \<open>Pmax = 21.80\<close>; for \<open>t > 0\<close> it is \<open>4.77 + 4768.4 / (280 + 17.03 * t)\<close>; it tends to
  \<open>CP = 4.77\<close> as the duration grows, and at \<open>t = 100000\<close> it is within 0.003 of it.
\<close>

theorem referencePower_curve:
  "(\<forall>t1 t2. 0 < t1 \<and> t1 < t2 \<longrightarrow> referencePower t1 \<ge> referencePower t2)
   \<and> (\<forall>t. t \<le> 0 \<longrightarrow> referencePower t = CP_MODEL_Pmax \<and> CP_MODEL_Pmax = 21.80)
   \<and> (\<forall>t. 0 < t \<longrightarrow> referencePower t = 4.77 + 4768.4 / (280 + 17.03 * t))
   \<and> (referencePower \<longlongrightarrow> CP_MODEL_CP) at_top \<and> CP_MODEL_CP = 4.77
   \<and> \<bar>referencePower 100000 - CP_MODEL_CP\<bar> < 0.003"
proof -
  have mono: "\<forall>t1 t2. 0 < t1 \<and> t1 < t2 \<longrightarrow> referencePower t1 \<ge> referencePower t2"
    using referencePower_antimono by (auto intro: less_imp_le)
  have zero: "\<forall>t. t \<le> 0 \<longrightarrow> referencePower t = CP_MODEL_Pmax \<and> CP_MODEL_Pmax = 21.80"
    using referencePower_nonpos by (simp add: CP_MODEL_Pmax_def)
  have pos: "\<forall>t. 0 < t \<longrightarrow> referencePower t = 4.77 + 4768.4 / (280 + 17.03 * t)"
    using referencePower_pos_formula by simp
  have lim: "(referencePower \<longlongrightarrow> CP_MODEL_CP) at_top"
    using referencePower_limit by (simp add: CP_MODEL_CP_def)
  have eps: "\<bar>referencePower 100000 - CP_MODEL_CP\<bar> < 0.003"
    using referencePower_100000 by (simp add: CP_MODEL_CP_def)
  show ?thesis
    using mono zero pos lim eps by (simp add: CP_MODEL_CP_def)
qed

theorem referencePower_curve_witness:
  "referencePower 1 \<ge> referencePower 2
   \<and> referencePower 0 = 21.80
   \<and> referencePower (- 3) = 21.80
   \<and> referencePower 1200 = 4.77 + 4768.4 / (280 + 17.03 * 1200)"
proof -
  have m: "(0::real) < 1 \<and> (1::real) < 2" by simp
  have z: "(0::real) \<le> 0" "(- 3::real) \<le> 0" by simp_all
  have p: "(0::real) < 1200" by simp
  from referencePower_curve m z p show ?thesis
    by (metis CP_MODEL_Pmax_def)
qed

subsection \<open>The scoring of a valid segment\<close>

lemmas physics_consts = PHYSICS_g_def PHYSICS_rho_def PHYSICS_bikeMass_def PHYSICS_Crr_def
  PHYSICS_CdA_def PHYSICS_eta_def

lemma parseKomTime_empty: "parseKomTime (Str []) = Inr Null"
  by (simp add: parseKomTime_def)

lemma parseKomTime_Str_returns: "\<exists>r. parseKomTime (Str s) = Inr r"
  by (simp add: parseKomTime_def Let_def split: list.splits jsint.splits)

lemma calculateSegmentDifficulty_scoreable:
  assumes "0 < d" "0 < m" "parseKomTime (Str s) = Inr (Val (Integer t))" "0 < t"
  shows "calculateSegmentDifficulty (Val d) (Val e) (Str s) (Val m) =
     Inr \<lparr>komPower = Val (P_total (calculateRequiredW d e (of_int t) m)),
          komPowerWKg = Val (P_totalWkg (calculateRequiredW d e (of_int t) m)),
          difficultyScore =
            Val (P_totalWkg (calculateRequiredW d e (of_int t) m) / referencePower (of_int t) * 100),
          difficultyClass =
            getDifficultyClass
              (P_totalWkg (calculateRequiredW d e (of_int t) m) / referencePower (of_int t) * 100),
          isValid = True\<rparr>"
proof -
  have "s \<noteq> []"
    using assms(3) parseKomTime_empty by auto
  then show ?thesis
    using assms by (simp add: calculateSegmentDifficulty_def Let_def)
qed

lemma calculateRequiredW_formula:
  "P_total (calculateRequiredW d e t m) =
     ((m + 8) * 9.81 * (d / t) * (e / d) + (m + 8) * 9.81 * (d / t) * 0.004
       + 0.5 * 1.2 * 0.28 * (d / t) ^ 3) / 0.98"
  "P_totalWkg (calculateRequiredW d e t m) = P_total (calculateRequiredW d e t m) / m"
  unfolding calculateRequiredW_def Let_def physics_consts power3_eq_cube
  by (simp_all only: power_result.simps mult.assoc)

lemma parseKomTime_20_00: "parseKomTime (Str (ascii ''20:00'')) = Inr (Val (Integer 1200))"
  by (simp add: parse_eval)

text \<open>
  Claim C1. For a scoreable input (\<open>distance > 0\<close>, an elevation gain that is present,
  \<open>riderMass > 0\<close>, a best known time that parses to a positive duration \<open>t\<close>) the
  result is valid and carries
  \<open>requiredPower = (totalMass * g * speed * grade + totalMass * g * speed * 0.004
    + 0.5 * 1.2 * 0.28 * speed ^ 3) / 0.98\<close>
  with \<open>speed = distance / t\<close>, \<open>grade = elevationGain / distance\<close>,
  \<open>totalMass = riderMass + 8\<close> and \<open>g = 9.81\<close>; \<open>requiredPowerPerKg = requiredPower /
  riderMass\<close>; and \<open>difficultyScore = (requiredPowerPerKg / referencePower t) * 100\<close>.
  (The code calls the two fields \<open>komPower\<close> and \<open>komPowerWKg\<close>.)
\<close>

theorem calculateSegmentDifficulty_formula:
  assumes "0 < distance" and "0 < riderMass"
    and "parseKomTime (Str bestKnownTime) = Inr (Val (Integer t))" and "0 < t"
  shows "calculateSegmentDifficulty (Val distance) (Val elevationGain) (Str bestKnownTime)
           (Val riderMass) =
     (let speed = distance / of_int t;
          grade = elevationGain / distance;
          totalMass = riderMass + 8;
          requiredPower = (totalMass * 9.81 * speed * grade + totalMass * 9.81 * speed * 0.004
                            + 0.5 * 1.2 * 0.28 * speed ^ 3) / 0.98;
          requiredPowerPerKg = requiredPower / riderMass;
          score = (requiredPowerPerKg / referencePower (of_int t)) * 100
      in Inr \<lparr>komPower = Val requiredPower, komPowerWKg = Val requiredPowerPerKg,
              difficultyScore = Val score, difficultyClass = getDifficultyClass score,
              isValid = True\<rparr>)"
  unfolding calculateSegmentDifficulty_scoreable[OF assms] Let_def calculateRequiredW_formula
  by (rule refl)

theorem calculateSegmentDifficulty_formula_witness:
  "calculateSegmentDifficulty (Val 5000) (Val 300) (Str (ascii ''20:00'')) (Val 75) =
     Inr \<lparr>komPower = Val (2063527 / 8820), komPowerWKg = Val (2063527 / 661500),
          difficultyScore = Val ((2063527 / 661500) / referencePower 1200 * 100),
          difficultyClass = getDifficultyClass ((2063527 / 661500) / referencePower 1200 * 100),
          isValid = True\<rparr>"
  using calculateSegmentDifficulty_formula[of 5000 75 "ascii ''20:00''" 1200 300]
    parseKomTime_20_00
  by (simp add: Let_def power3_eq_cube)

subsection \<open>The end-to-end example\<close>

lemma referencePower_1200: "referencePower 1200 = 2589593 / 517900"
  by (simp add: referencePower_pos_formula)

lemma example_result:
  "calculateSegmentDifficulty (Val 5000) (Val 300) (Str (ascii ''20:00'')) (Val 75) =
     Inr \<lparr>komPower = Val (2063527 / 8820), komPowerWKg = Val (2063527 / 661500),
          difficultyScore = Val (5776760180 / 92595447),
          difficultyClass = \<lparr>class_tag = ascii ''accessible'', label = ascii ''Machbar'',
                             color = ascii ''#16a34a'', min_prop = None\<rparr>,
          isValid = True\<rparr>"
proof -
  have p: "P_total (calculateRequiredW 5000 300 1200 75) = 2063527 / 8820"
    by (simp add: calculateRequiredW_formula power3_eq_cube)
  have w: "P_totalWkg (calculateRequiredW 5000 300 1200 75) = 2063527 / 661500"
    unfolding calculateRequiredW_formula(2) p by simp
  have c: "getDifficultyClass (5776760180 / 92595447) =
      \<lparr>class_tag = ascii ''accessible'', label = ascii ''Machbar'',
        color = ascii ''#16a34a'', min_prop = None\<rparr>"
    unfolding getDifficultyClass_def first_level_table by simp
  have t: "real_of_int 1200 = 1200" by simp
  have s: "2063527 / 661500 / (2589593 / 517900) * 100 = (5776760180 / 92595447 :: real)"
    by simp
  have "(0::real) < 5000" "(0::real) < 75" "(0::int) < 1200" by simp_all
  note a = calculateSegmentDifficulty_scoreable[OF this(1,2) parseKomTime_20_00 this(3), of 300]
  show ?thesis
    unfolding a p w t referencePower_1200 s c by (rule refl)
qed

text \<open>
  Claim C2, as stated, fails: for distance 5000 m, elevation gain 300 m, the time
  \<open>"20:00"\<close> and a rider of 75 kg the class is not \<open>moderate\<close>, and the required
  power is 2063527 / 8820 W, below 234 W.
\<close>

theorem example_20_00_not_moderate:
  "class_tag (difficultyClass (projr
      (calculateSegmentDifficulty (Val 5000) (Val 300) (Str (ascii ''20:00'')) (Val 75))))
     \<noteq> ascii ''moderate''
   \<and> komPower (projr
      (calculateSegmentDifficulty (Val 5000) (Val 300) (Str (ascii ''20:00'')) (Val 75)))
     = Val (2063527 / 8820)
   \<and> (2063527 / 8820 :: real) < 234"
  unfolding example_result by (simp add: ascii_def)

text \<open>
  Claim C2, amended. For distance 5000 m, elevation gain 300 m, the time \<open>"20:00"\<close>
  (1200 s) and a rider of 75 kg the result is valid, with a required power of 233.96 W,
  3.119 W/kg, a score of 62.39 (each to the last digit given) and the class
  \<open>accessible\<close>, the band from 50 up to 70.
\<close>

theorem example_20_00_accessible:
  "\<exists>P W S. calculateSegmentDifficulty (Val 5000) (Val 300) (Str (ascii ''20:00'')) (Val 75) =
       Inr \<lparr>komPower = Val P, komPowerWKg = Val W, difficultyScore = Val S,
            difficultyClass = \<lparr>class_tag = ascii ''accessible'', label = ascii ''Machbar'',
                               color = ascii ''#16a34a'', min_prop = None\<rparr>,
            isValid = True\<rparr>
     \<and> \<bar>P - 233.96\<bar> < 0.01 \<and> \<bar>W - 3.119\<bar> < 0.001 \<and> \<bar>S - 62.39\<bar> < 0.01"
proof -
  have "\<bar>(2063527 / 8820 :: real) - 233.96\<bar> < 0.01"
    and "\<bar>(2063527 / 661500 :: real) - 3.119\<bar> < 0.001"
    and "\<bar>(5776760180 / 92595447 :: real) - 62.39\<bar> < 0.01"
    by simp_all
  then show ?thesis
    unfolding example_result by blast
qed

subsection \<open>Validation\<close>

lemma calculateSegmentDifficulty_rejects:
  assumes "(case distance of Val d \<Rightarrow> d \<le> 0 | _ \<Rightarrow> True)
         \<or> elevation = Undefined \<or> elevation = Null
         \<or> (case riderMass of Val m \<Rightarrow> m \<le> 0 | _ \<Rightarrow> True)
         \<or> komTime = JUndefined \<or> komTime = JNull \<or> komTime = Str []"
  shows "calculateSegmentDifficulty distance elevation komTime riderMass = Inr defaultResult"
  using assms
  by (cases distance; cases elevation; cases riderMass)
     (auto simp: calculateSegmentDifficulty_def)

lemma calculateSegmentDifficulty_bad_time:
  assumes "\<forall>t. parseKomTime (Str s) = Inr (Val (Integer t)) \<longrightarrow> t \<le> 0"
  shows "calculateSegmentDifficulty distance elevation (Str s) riderMass = Inr defaultResult"
proof -
  obtain r where r: "parseKomTime (Str s) = Inr r"
    using parseKomTime_Str_returns by blast
  have "not_positive r"
  proof (cases r)
    case (Val j)
    then show ?thesis using assms r by (cases j) auto
  qed simp_all
  then show ?thesis
    using r by (simp add: calculateSegmentDifficulty_def)
qed

text \<open>
  Claim C3. Whenever the distance is absent or \<open>\<le> 0\<close>, or the elevation gain is
  \<open>null\<close> or \<open>undefined\<close>, or the rider mass is absent or \<open>\<le> 0\<close>, or the best known
  time is absent, empty, or a string that does not parse to a positive duration, the
  result is exactly the invalid sentinel: the three numbers \<open>null\<close>, the class
  \<open>unknown\<close> with the dash label and the gray \<open>#9ca3af\<close>, and \<open>isValid: false\<close>.
  Whenever all the checks pass (positive distance and mass, an elevation that is present,
  a time that parses to a positive duration) the result has \<open>isValid: true\<close> and its
  three numbers are present.
\<close>

theorem calculateSegmentDifficulty_validity:
  "((case distance of Val d \<Rightarrow> d \<le> 0 | _ \<Rightarrow> True)
      \<or> elevation = Undefined \<or> elevation = Null
      \<or> (case riderMass of Val m \<Rightarrow> m \<le> 0 | _ \<Rightarrow> True)
      \<or> komTime = JUndefined \<or> komTime = JNull \<or> komTime = Str []
      \<or> (\<exists>s. komTime = Str s \<and> (\<forall>t. parseKomTime (Str s) = Inr (Val (Integer t)) \<longrightarrow> t \<le> 0))
    \<longrightarrow> calculateSegmentDifficulty distance elevation komTime riderMass =
          Inr \<lparr>komPower = Null, komPowerWKg = Null, difficultyScore = Null,
               difficultyClass = \<lparr>class_tag = ascii ''unknown'', label = [8212],
                                  color = ascii ''#9ca3af'', min_prop = None\<rparr>,
               isValid = False\<rparr>)
   \<and> ((\<exists>d e m s t. distance = Val d \<and> 0 < d \<and> elevation = Val e \<and> riderMass = Val m \<and> 0 < m
          \<and> komTime = Str s \<and> parseKomTime (Str s) = Inr (Val (Integer t)) \<and> 0 < t)
    \<longrightarrow> (\<exists>r P W S. calculateSegmentDifficulty distance elevation komTime riderMass = Inr r
          \<and> isValid r \<and> komPower r = Val P \<and> komPowerWKg r = Val W
          \<and> difficultyScore r = Val S))"
proof (intro conjI impI)
  assume "(case distance of Val d \<Rightarrow> d \<le> 0 | _ \<Rightarrow> True)
      \<or> elevation = Undefined \<or> elevation = Null
      \<or> (case riderMass of Val m \<Rightarrow> m \<le> 0 | _ \<Rightarrow> True)
      \<or> komTime = JUndefined \<or> komTime = JNull \<or> komTime = Str []
      \<or> (\<exists>s. komTime = Str s \<and> (\<forall>t. parseKomTime (Str s) = Inr (Val (Integer t)) \<longrightarrow> t \<le> 0))"
  then have "calculateSegmentDifficulty distance elevation komTime riderMass = Inr defaultResult"
    using calculateSegmentDifficulty_rejects[of distance elevation riderMass komTime]
      calculateSegmentDifficulty_bad_time[of _ distance elevation riderMass]
    by blast
  then show "calculateSegmentDifficulty distance elevation komTime riderMass =
          Inr \<lparr>komPower = Null, komPowerWKg = Null, difficultyScore = Null,
               difficultyClass = \<lparr>class_tag = ascii ''unknown'', label = [8212],
                                  color = ascii ''#9ca3af'', min_prop = None\<rparr>,
               isValid = False\<rparr>"
    by (simp add: defaultResult_def)
next
  assume "\<exists>d e m s t. distance = Val d \<and> 0 < d \<and> elevation = Val e \<and> riderMass = Val m \<and> 0 < m
          \<and> komTime = Str s \<and> parseKomTime (Str s) = Inr (Val (Integer t)) \<and> 0 < t"
  then obtain d e m s t where h: "distance = Val d" "0 < d" "elevation = Val e"
      "riderMass = Val m" "0 < m" "komTime = Str s"
      "parseKomTime (Str s) = Inr (Val (Integer t))" "0 < t"
    by blast
  show "\<exists>r P W S. calculateSegmentDifficulty distance elevation komTime riderMass = Inr r
          \<and> isValid r \<and> komPower r = Val P \<and> komPowerWKg r = Val W
          \<and> difficultyScore r = Val S"
    unfolding h(1,3,4,6) calculateSegmentDifficulty_scoreable[OF h(2,5,7,8)]
    by simp
qed

lemma parseKomTime_abc: "parseKomTime (Str (ascii ''abc'')) = Inr Null"
  by (simp add: parse_eval)

lemma parseKomTime_0: "parseKomTime (Str (ascii ''0'')) = Inr (Val (Integer 0))"
  by (simp add: parse_eval)

theorem calculateSegmentDifficulty_validity_witness:
  "calculateSegmentDifficulty (Val 0) (Val 300) (Str (ascii ''20:00'')) (Val 75) = Inr defaultResult
   \<and> calculateSegmentDifficulty (Val 5000) Null (Str (ascii ''20:00'')) (Val 75) = Inr defaultResult
   \<and> calculateSegmentDifficulty (Val 5000) (Val 300) (Str (ascii ''20:00'')) (Val (- 1)) = Inr defaultResult
   \<and> calculateSegmentDifficulty (Val 5000) (Val 300) JNull (Val 75) = Inr defaultResult
   \<and> calculateSegmentDifficulty (Val 5000) (Val 300) (Str (ascii ''abc'')) (Val 75) = Inr defaultResult
   \<and> calculateSegmentDifficulty (Val 5000) (Val 300) (Str (ascii ''0'')) (Val 75) = Inr defaultResult
   \<and> (\<exists>r P W S. calculateSegmentDifficulty (Val 5000) (Val 300) (Str (ascii ''20:00'')) (Val 75) = Inr r
          \<and> isValid r \<and> komPower r = Val P \<and> komPowerWKg r = Val W \<and> difficultyScore r = Val S)"
proof -
  have 1: "calculateSegmentDifficulty (Val 0) (Val 300) (Str (ascii ''20:00'')) (Val 75) = Inr defaultResult"
    using calculateSegmentDifficulty_validity[of "Val 0" "Val 300" "Val 75" "Str (ascii ''20:00'')"]
    by (simp add: defaultResult_def)
  have 2: "calculateSegmentDifficulty (Val 5000) Null (Str (ascii ''20:00'')) (Val 75) = Inr defaultResult"
    using calculateSegmentDifficulty_validity[of "Val 5000" "Null" "Val 75" "Str (ascii ''20:00'')"]
    by (simp add: defaultResult_def)
  have 3: "calculateSegmentDifficulty (Val 5000) (Val 300) (Str (ascii ''20:00'')) (Val (- 1)) = Inr defaultResult"
    using calculateSegmentDifficulty_validity[of "Val 5000" "Val 300" "Val (- 1)" "Str (ascii ''20:00'')"]
    by (simp add: defaultResult_def)
  have 4: "calculateSegmentDifficulty (Val 5000) (Val 300) JNull (Val 75) = Inr defaultResult"
    using calculateSegmentDifficulty_validity[of "Val 5000" "Val 300" "Val 75" "JNull"]
    by (simp add: defaultResult_def)
  have 5: "calculateSegmentDifficulty (Val 5000) (Val 300) (Str (ascii ''abc'')) (Val 75) = Inr defaultResult"
    using calculateSegmentDifficulty_validity[of "Val 5000" "Val 300" "Val 75" "Str (ascii ''abc'')"]
      parseKomTime_abc
    by (simp add: defaultResult_def)
  have 6: "calculateSegmentDifficulty (Val 5000) (Val 300) (Str (ascii ''0'')) (Val 75) = Inr defaultResult"
    using calculateSegmentDifficulty_validity[of "Val 5000" "Val 300" "Val 75" "Str (ascii ''0'')"]
      parseKomTime_0
    by (simp add: defaultResult_def)
  have 7: "\<exists>r P W S. calculateSegmentDifficulty (Val 5000) (Val 300) (Str (ascii ''20:00'')) (Val 75) = Inr r
          \<and> isValid r \<and> komPower r = Val P \<and> komPowerWKg r = Val W \<and> difficultyScore r = Val S"
    using calculateSegmentDifficulty_validity[of "Val 5000" "Val 300" "Val 75" "Str (ascii ''20:00'')"]
      parseKomTime_20_00
    by simp
  from 1 2 3 4 5 6 7 show ?thesis by blast
qed

text \<open>
  Conversely, on a string the sentinel comes from a failed check only: the last case of
  the pattern match in \<open>calculateSegmentDifficulty\<close> is never the one taken.
\<close>

lemma calculateSegmentDifficulty_sentinel_only_on_failed_check:
  assumes "calculateSegmentDifficulty distance elevation (Str s) riderMass = Inr defaultResult"
  shows "(case distance of Val d \<Rightarrow> d \<le> 0 | _ \<Rightarrow> True)
       \<or> elevation = Undefined \<or> elevation = Null
       \<or> (case riderMass of Val m \<Rightarrow> m \<le> 0 | _ \<Rightarrow> True)
       \<or> (\<forall>t. parseKomTime (Str s) = Inr (Val (Integer t)) \<longrightarrow> t \<le> 0)"
proof (rule ccontr)
  assume n: "\<not> ?thesis"
  then obtain d e m t where h: "distance = Val d" "0 < d" "elevation = Val e"
      "riderMass = Val m" "0 < m" "parseKomTime (Str s) = Inr (Val (Integer t))" "0 < t"
    by (cases distance; cases elevation; cases riderMass) (auto simp: not_le)
  have "isValid defaultResult"
    using assms unfolding h(1,3,4) calculateSegmentDifficulty_scoreable[OF h(2,5,6,7)]
    by (metis difficulty_result.select_convs(5) sum.inject(2))
  then show False
    by (simp add: defaultResult_def)
qed

subsection \<open>Exceptions\<close>

text \<open>
  Claim C8, as stated, fails: with the best known time given as the number 1200 (seconds
  already parsed) and the other fields valid, \<open>parseKomTime\<close> calls \<open>trim\<close> on a
  number and the function throws a TypeError.
\<close>

theorem calculateSegmentDifficulty_number_time_counterexample:
  "calculateSegmentDifficulty (Val 5000) (Val 300) (Num 1200) (Val 75) = Inl TypeError"
  by (simp add: calculateSegmentDifficulty_def parseKomTime_def)

lemma calculateSegmentDifficulty_falsy_time:
  "js_not_val komTime \<Longrightarrow>
     calculateSegmentDifficulty distance elevation komTime riderMass = Inr defaultResult"
  by (simp add: calculateSegmentDifficulty_def)

text \<open>
  Claim C8, amended. When the best known time is a string or absent (or the number 0,
  which is falsy), \<open>calculateSegmentDifficulty\<close> throws nothing, whatever the other
  fields. It returns a result whose \<open>isValid\<close> flag tells whether the input was
  scoreable: the flag is true exactly when distance and rider mass are positive numbers,
  the elevation is present and the time is a string that parses to a positive duration;
  for every other input the flag is false and the result is the invalid sentinel.
\<close>

theorem calculateSegmentDifficulty_no_throw:
  assumes "\<forall>x. komTime = Num x \<longrightarrow> x = 0"
  shows "\<exists>r. calculateSegmentDifficulty distance elevation komTime riderMass = Inr r
       \<and> (isValid r \<or> r = defaultResult)
       \<and> (isValid r =
            (\<exists>d e m s t. distance = Val d \<and> 0 < d \<and> elevation = Val e
               \<and> riderMass = Val m \<and> 0 < m \<and> komTime = Str s
               \<and> parseKomTime (Str s) = Inr (Val (Integer t)) \<and> 0 < t))"
proof (cases "\<exists>d e m s t. distance = Val d \<and> 0 < d \<and> elevation = Val e
               \<and> riderMass = Val m \<and> 0 < m \<and> komTime = Str s
               \<and> parseKomTime (Str s) = Inr (Val (Integer t)) \<and> 0 < t")
  case True
  then obtain d e m s t where h: "distance = Val d" "0 < d" "elevation = Val e"
      "riderMass = Val m" "0 < m" "komTime = Str s"
      "parseKomTime (Str s) = Inr (Val (Integer t))" "0 < t"
    by blast
  have "\<exists>r. calculateSegmentDifficulty distance elevation komTime riderMass = Inr r \<and> isValid r"
    unfolding h(1,3,4,6) calculateSegmentDifficulty_scoreable[OF h(2,5,7,8)] by simp
  then show ?thesis using True by blast
next
  case False
  have "calculateSegmentDifficulty distance elevation komTime riderMass = Inr defaultResult"
  proof (cases komTime)
    case JUndefined
    then show ?thesis by (simp add: calculateSegmentDifficulty_falsy_time)
  next
    case JNull
    then show ?thesis by (simp add: calculateSegmentDifficulty_falsy_time)
  next
    case (Num x)
    then have "js_not_val komTime" using assms by simp
    then show ?thesis by (rule calculateSegmentDifficulty_falsy_time)
  next
    case (Str s)
    show ?thesis
    proof (cases "\<forall>t. parseKomTime (Str s) = Inr (Val (Integer t)) \<longrightarrow> t \<le> 0")
      case True
      then show ?thesis unfolding Str by (rule calculateSegmentDifficulty_bad_time)
    next
      case nt: False
      with False Str have "(case distance of Val d \<Rightarrow> d \<le> 0 | _ \<Rightarrow> True)
           \<or> elevation = Undefined \<or> elevation = Null
           \<or> (case riderMass of Val m \<Rightarrow> m \<le> 0 | _ \<Rightarrow> True)"
        by (cases distance; cases elevation; cases riderMass) (auto simp: not_le)
      then show ?thesis
        using calculateSegmentDifficulty_rejects[of distance elevation riderMass komTime] by blast
    qed
  qed
  moreover have "\<not> isValid defaultResult"
    by (simp add: defaultResult_def)
  ultimately show ?thesis using False by simp
qed

theorem calculateSegmentDifficulty_no_throw_witness:
  "(\<exists>r. calculateSegmentDifficulty (Val 5000) Undefined (Str (ascii ''abc'')) (Val (- 1)) = Inr r
       \<and> \<not> isValid r \<and> r = defaultResult)
   \<and> (\<exists>r. calculateSegmentDifficulty (Val 5000) (Val 300) (Num 0) (Val 75) = Inr r
       \<and> \<not> isValid r \<and> r = defaultResult)
   \<and> (\<exists>r. calculateSegmentDifficulty (Val 5000) (Val 300) (Str (ascii ''abc'')) (Val 75) = Inr r
       \<and> \<not> isValid r \<and> r = defaultResult)
   \<and> (\<exists>r. calculateSegmentDifficulty (Val 5000) (Val 300) (Str (ascii ''20:00'')) (Val 75) = Inr r
       \<and> isValid r)"
proof -
  have a: "\<forall>x. Str (ascii ''abc'') = Num x \<longrightarrow> x = 0" by simp
  have b: "\<forall>x. Num 0 = Num x \<longrightarrow> x = 0" by simp
  have c: "\<forall>x. Str (ascii ''20:00'') = Num x \<longrightarrow> x = 0" by simp
  have 1: "\<exists>r. calculateSegmentDifficulty (Val 5000) Undefined (Str (ascii ''abc'')) (Val (- 1)) = Inr r
       \<and> \<not> isValid r \<and> r = defaultResult"
    using calculateSegmentDifficulty_no_throw[OF a, of "Val 5000" Undefined "Val (- 1)"] by auto
  have 2: "\<exists>r. calculateSegmentDifficulty (Val 5000) (Val 300) (Num 0) (Val 75) = Inr r
       \<and> \<not> isValid r \<and> r = defaultResult"
    using calculateSegmentDifficulty_no_throw[OF b, of "Val 5000" "Val 300" "Val 75"] by auto
  have 3: "\<exists>r. calculateSegmentDifficulty (Val 5000) (Val 300) (Str (ascii ''abc'')) (Val 75) = Inr r
       \<and> \<not> isValid r \<and> r = defaultResult"
    using calculateSegmentDifficulty_no_throw[OF a, of "Val 5000" "Val 300" "Val 75"]
      parseKomTime_abc
    by auto
  have 4: "\<exists>r. calculateSegmentDifficulty (Val 5000) (Val 300) (Str (ascii ''20:00'')) (Val 75) = Inr r
       \<and> isValid r"
    using calculateSegmentDifficulty_no_throw[OF c, of "Val 5000" "Val 300" "Val 75"]
      parseKomTime_20_00
    by auto
  from 1 2 3 4 show ?thesis by blast
qed

subsection \<open>Downhill segments\<close>

lemma P_total_strict_mono:
  assumes "0 < d" "0 < t" "0 < m" "e1 < e2"
  shows "P_total (calculateRequiredW d e1 t m) < P_total (calculateRequiredW d e2 t m)"
proof -
  have k: "0 < (m + 8) * 9.81 * (d / t)"
    using assms by simp
  have "e1 / d < e2 / d"
    using assms by (simp add: divide_strict_right_mono)
  then have "(m + 8) * 9.81 * (d / t) * (e1 / d) < (m + 8) * 9.81 * (d / t) * (e2 / d)"
    using k by (rule mult_strict_left_mono)
  then have "(m + 8) * 9.81 * (d / t) * (e1 / d) + (m + 8) * 9.81 * (d / t) * 0.004
               + 0.5 * 1.2 * 0.28 * (d / t) ^ 3
           < (m + 8) * 9.81 * (d / t) * (e2 / d) + (m + 8) * 9.81 * (d / t) * 0.004
               + 0.5 * 1.2 * 0.28 * (d / t) ^ 3"
    by simp
  then show ?thesis
    unfolding calculateRequiredW_formula by (rule divide_strict_right_mono) simp
qed

lemma downhill_result:
  "calculateSegmentDifficulty (Val 5000) (Val (- 100)) (Str (ascii ''20:00'')) (Val 75) =
     Inr \<lparr>komPower = Val (- (379163 / 8820)), komPowerWKg = Val (- (379163 / 661500)),
          difficultyScore = Val (- (379163 / 661500) / (2589593 / 517900) * 100),
          difficultyClass = getDifficultyClass (- (379163 / 661500) / (2589593 / 517900) * 100),
          isValid = True\<rparr>"
proof -
  have p: "P_total (calculateRequiredW 5000 (- 100) 1200 75) = - (379163 / 8820)"
    by (simp add: calculateRequiredW_formula power3_eq_cube)
  have w: "P_totalWkg (calculateRequiredW 5000 (- 100) 1200 75) = - (379163 / 661500)"
    unfolding calculateRequiredW_formula(2) p by simp
  have t: "real_of_int 1200 = 1200" by simp
  have "(0::real) < 5000" "(0::real) < 75" "(0::int) < 1200" by simp_all
  note a = calculateSegmentDifficulty_scoreable[OF this(1,2) parseKomTime_20_00 this(3), of "- 100"]
  show ?thesis
    unfolding a t p w referencePower_1200 by (rule refl)
qed

subsection \<open>Rounding to binary64\<close>

lemma round_even_of_int [simp]: "round_even (of_int n) = n"
  by (simp add: round_even_def)

lemma round_even_bounds: "\<lfloor>y\<rfloor> \<le> round_even y" "round_even y \<le> \<lfloor>y\<rfloor> + 1"
  by (simp_all add: round_even_def Let_def)

lemma round_even_mono:
  assumes "x \<le> y"
  shows "round_even x \<le> round_even y"
proof (cases "\<lfloor>x\<rfloor> = \<lfloor>y\<rfloor>")
  case True
  then show ?thesis
    using assms by (auto simp: round_even_def Let_def)
next
  case False
  then have "\<lfloor>x\<rfloor> + 1 \<le> \<lfloor>y\<rfloor>"
    using floor_mono[OF assms] by linarith
  then show ?thesis
    using round_even_bounds(2)[of x] round_even_bounds(1)[of y] by linarith
qed

lemma round_even_minus: "round_even (- y) = - round_even y"
proof (cases "y = of_int \<lfloor>y\<rfloor>")
  case True
  then obtain n where "y = of_int n" by blast
  then have "- y = of_int (- n)" by simp
  then show ?thesis
    using \<open>y = of_int n\<close> round_even_of_int by metis
next
  case False
  then have lt: "of_int \<lfloor>y\<rfloor> < y"
    using of_int_floor_le[of y] by linarith
  have ub: "y < of_int \<lfloor>y\<rfloor> + 1"
    by linarith
  have "of_int (- \<lfloor>y\<rfloor> - 1) \<le> - y" "- y < of_int (- \<lfloor>y\<rfloor> - 1) + 1"
    using lt ub by (simp_all del: real_of_int_floor_add_one_gt) 
  then have "\<lfloor>- y\<rfloor> = - \<lfloor>y\<rfloor> - 1"
    by (rule floor_unique)
  then show ?thesis
    using lt by (auto simp: round_even_def Let_def)
qed

lemma two_powr_int: "2 powr real_of_int k = (2::real) powi k"
  by (simp add: powr_real_of_int')

lemma floor_log2_iff:
  assumes "0 < x"
  shows "(\<lfloor>log 2 x\<rfloor> = k) = (2 powi k \<le> x \<and> x < 2 powi (k + 1))"
  using floor_log_eq_powr_iff[of x 2 k] assms unfolding two_powr_int by simp

lemma floor_log2_bounds:
  assumes "0 < x"
  shows "2 powi \<lfloor>log 2 x\<rfloor> \<le> x" "x < 2 powi (\<lfloor>log 2 x\<rfloor> + 1)"
  using floor_log2_iff[OF assms, of "\<lfloor>log 2 x\<rfloor>"] by simp_all

lemma floor_log2_eq:
  assumes "2 powi k \<le> x" "x < 2 powi (k + 1)"
  shows "\<lfloor>log 2 x\<rfloor> = k"
proof -
  have "0 < x"
    using assms(1) zero_less_power_int[of "2::real" k] by linarith
  then show ?thesis
    using floor_log2_iff[of x k] assms by simp
qed

lemma binade_minus [simp]: "binade (- x) = binade x"
  by (simp add: binade_def)

lemma binade_upper:
  assumes "0 < x"
  shows "x < 2 powi (binade x + 1)"
proof -
  have "x < 2 powi (\<lfloor>log 2 x\<rfloor> + 1)"
    using floor_log2_bounds(2)[OF assms] .
  also have "\<dots> \<le> 2 powi (binade x + 1)"
    using assms by (intro power_int_increasing) (simp_all add: binade_def)
  finally show ?thesis .
qed

lemma binade_lower:
  assumes "0 < x" "- 1022 < binade x"
  shows "2 powi binade x \<le> x"
proof -
  have "binade x = \<lfloor>log 2 x\<rfloor>"
    using assms by (simp add: binade_def max_def split: if_splits)
  then show ?thesis
    using floor_log2_bounds(1)[OF assms(1)] by simp
qed

lemma binade_mono:
  assumes "0 < x" "x \<le> y"
  shows "binade x \<le> binade y"
proof -
  have y: "0 < y" using assms by linarith
  have "log 2 x \<le> log 2 y"
    using assms y by simp
  then have "\<lfloor>log 2 x\<rfloor> \<le> \<lfloor>log 2 y\<rfloor>"
    by (rule floor_mono)
  then show ?thesis
    using assms(1) y by (simp add: binade_def max.coboundedI1)
qed

lemma rnd_minus: "rnd (- x) = - rnd x"
  by (simp add: rnd_def round_even_minus)

lemma rnd_zero [simp]: "rnd 0 = 0"
  by (simp add: rnd_def)

lemma rnd_nonneg:
  assumes "0 \<le> x"
  shows "0 \<le> rnd x"
proof (cases "x = 0")
  case False
  have "0 \<le> x / 2 powi (binade x - 52)"
    using assms by simp
  then have "round_even 0 \<le> round_even (x / 2 powi (binade x - 52))"
    by (rule round_even_mono)
  then have "0 \<le> round_even (x / 2 powi (binade x - 52))"
    using round_even_of_int[of 0] by simp
  then show ?thesis
    using False by (simp add: rnd_def)
qed simp

lemma rnd_mono_pos:
  assumes "0 < x" "x \<le> y"
  shows "rnd x \<le> rnd y"
proof -
  have y: "0 < y" using assms by linarith
  define ex where "ex = binade x"
  define ey where "ey = binade y"
  have rx: "rnd x = of_int (round_even (x / 2 powi (ex - 52))) * 2 powi (ex - 52)"
    using assms(1) by (simp add: rnd_def ex_def)
  have ry: "rnd y = of_int (round_even (y / 2 powi (ey - 52))) * 2 powi (ey - 52)"
    using y by (simp add: rnd_def ey_def)
  have le: "ex \<le> ey"
    unfolding ex_def ey_def using assms by (rule binade_mono)
  show ?thesis
  proof (cases "ex = ey")
    case True
    have "x / 2 powi (ey - 52) \<le> y / 2 powi (ey - 52)"
      using assms(2) by (simp add: divide_right_mono)
    then have "round_even (x / 2 powi (ey - 52)) \<le> round_even (y / 2 powi (ey - 52))"
      by (rule round_even_mono)
    then show ?thesis
      unfolding rx ry True by (simp add: mult_right_mono)
  next
    case False
    then have lt: "ex + 1 \<le> ey" using le by linarith
    have "- 1022 \<le> ex" by (simp add: ex_def binade_def)
    then have "- 1022 < ey" using lt by linarith
    then have low: "2 powi ey \<le> y"
      unfolding ey_def using binade_lower[OF y] by (simp add: ey_def)
    have "2 powi ey / 2 powi (ey - 52) \<le> y / 2 powi (ey - 52)"
      using low by (simp add: divide_right_mono)
    moreover have "(2::real) powi ey / 2 powi (ey - 52) = of_int (2 ^ 52)"
      by (simp add: power_int_diff)
    ultimately have "round_even (of_int (2 ^ 52)) \<le> round_even (y / 2 powi (ey - 52))"
      by (metis round_even_mono)
    then have "(2::real) ^ 52 \<le> of_int (round_even (y / 2 powi (ey - 52)))"
      unfolding round_even_of_int by (metis of_int_le_iff of_int_numeral of_int_power)
    then have "2 ^ 52 * 2 powi (ey - 52) \<le> rnd y"
      unfolding ry by (simp add: mult_right_mono)
    then have ylow: "2 powi ey \<le> rnd y"
      by (simp add: power_int_diff)
    have up: "x < 2 powi (ex + 1)"
      unfolding ex_def using binade_upper[OF assms(1)] .
    have "x / 2 powi (ex - 52) \<le> 2 powi (ex + 1) / 2 powi (ex - 52)"
      using up by (simp add: divide_right_mono)
    moreover have "(2::real) powi (ex + 1) / 2 powi (ex - 52) = of_int (2 ^ 53)"
      by (simp add: power_int_diff power_int_add)
    ultimately have "round_even (x / 2 powi (ex - 52)) \<le> round_even (of_int (2 ^ 53))"
      by (metis round_even_mono)
    then have "of_int (round_even (x / 2 powi (ex - 52))) \<le> (2::real) ^ 53"
      unfolding round_even_of_int by (metis of_int_le_iff of_int_numeral of_int_power)
    then have "rnd x \<le> 2 ^ 53 * 2 powi (ex - 52)"
      unfolding rx by (simp add: mult_right_mono)
    then have "rnd x \<le> 2 powi (ex + 1)"
      by (simp add: power_int_diff power_int_add)
    also have "\<dots> \<le> 2 powi ey"
      using lt by (intro power_int_increasing) simp_all
    finally show ?thesis
      using ylow by linarith
  qed
qed

lemma rnd_mono:
  assumes "x \<le> y"
  shows "rnd x \<le> rnd y"
proof -
  consider "0 < x" | "x \<le> 0" "0 \<le> y" | "y < 0" by linarith
  then show ?thesis
  proof cases
    case 1
    then show ?thesis using assms by (rule rnd_mono_pos)
  next
    case 2
    have "rnd x \<le> 0"
      using rnd_nonneg[of "- x"] 2(1) by (simp add: rnd_minus)
    moreover have "0 \<le> rnd y"
      using 2(2) by (rule rnd_nonneg)
    ultimately show ?thesis by linarith
  next
    case 3
    then have "0 < - y" "- y \<le> - x" using assms by simp_all
    then have "rnd (- y) \<le> rnd (- x)" by (rule rnd_mono_pos)
    then show ?thesis by (simp add: rnd_minus)
  qed
qed

lemma rnd_evalI:
  assumes "2 ^ 52 \<le> \<bar>x\<bar> * 2 ^ j" "\<bar>x\<bar> * 2 ^ j < 2 ^ 53" "j \<le> 1074"
    and "round_even (x * 2 ^ j) = n"
  shows "rnd x = of_int n / 2 ^ j"
proof -
  define k where "k = 52 - int j"
  have p: "(2::real) powi (k - 52) = 1 / 2 ^ j"
    by (simp add: k_def power_int_minus_divide)
  have q: "(2::real) powi k = 2 ^ 52 / 2 ^ j" "(2::real) powi (k + 1) = 2 ^ 53 / 2 ^ j"
    by (simp_all add: k_def power_int_diff)
  have "2 powi k \<le> \<bar>x\<bar>"
    unfolding q using assms(1) by (simp add: pos_divide_le_eq)
  moreover have "\<bar>x\<bar> < 2 powi (k + 1)"
    unfolding q using assms(2) by (simp add: pos_less_divide_eq)
  ultimately have "\<lfloor>log 2 \<bar>x\<bar>\<rfloor> = k"
    by (rule floor_log2_eq)
  moreover have "- 1022 \<le> k"
    using assms(3) by (simp add: k_def)
  ultimately have "binade x = k"
    by (simp add: binade_def)
  moreover have "x \<noteq> 0"
    using assms(1) by auto
  ultimately show ?thesis
    using assms(4) by (simp add: rnd_def p)
qed

lemma round64_evalI:
  assumes "2 ^ 52 \<le> \<bar>x\<bar> * 2 ^ j" "\<bar>x\<bar> * 2 ^ j < 2 ^ 53" "j \<le> 1074"
    and "round_even (x * 2 ^ j) = n" and "r = of_int n / 2 ^ j" and "\<bar>r\<bar> < 2 ^ 1024"
  shows "round64 x = Some r"
  using rnd_evalI[OF assms(1-4)] assms(5,6) by (simp add: round64_def)

lemma fmul_evalI:
  assumes "2 ^ 52 \<le> \<bar>a * b\<bar> * 2 ^ j" "\<bar>a * b\<bar> * 2 ^ j < 2 ^ 53" "j \<le> 1074"
    and "round_even (a * b * 2 ^ j) = n" and "r = of_int n / 2 ^ j" and "\<bar>r\<bar> < 2 ^ 1024"
  shows "fmul (Some a) (Some b) = Some r"
  using round64_evalI[OF assms] by (simp add: fmul_def)

lemma fadd_evalI:
  assumes "2 ^ 52 \<le> \<bar>a + b\<bar> * 2 ^ j" "\<bar>a + b\<bar> * 2 ^ j < 2 ^ 53" "j \<le> 1074"
    and "round_even ((a + b) * 2 ^ j) = n" and "r = of_int n / 2 ^ j" and "\<bar>r\<bar> < 2 ^ 1024"
  shows "fadd (Some a) (Some b) = Some r"
  using round64_evalI[OF assms] by (simp add: fadd_def)

lemma fdiv_evalI:
  assumes "2 ^ 52 \<le> \<bar>a / b\<bar> * 2 ^ j" "\<bar>a / b\<bar> * 2 ^ j < 2 ^ 53" "j \<le> 1074"
    and "round_even (a / b * 2 ^ j) = n" and "r = of_int n / 2 ^ j" and "\<bar>r\<bar> < 2 ^ 1024"
    and "b \<noteq> 0"
  shows "fdiv (Some a) b = Some r"
  using round64_evalI[OF assms(1-6)] assms(7) by (simp add: fdiv_def)

lemma lit_evalI:
  assumes "2 ^ 52 \<le> \<bar>x\<bar> * 2 ^ j" "\<bar>x\<bar> * 2 ^ j < 2 ^ 53" "j \<le> 1074"
    and "round_even (x * 2 ^ j) = n" and "r = of_int n / 2 ^ j" and "\<bar>r\<bar> < 2 ^ 1024"
  shows "lit x = Some r"
  using round64_evalI[OF assms] by (simp add: lit_def)

lemma round64_zero [simp]: "round64 0 = Some 0"
  by (simp add: round64_def)

lemma round64_mono:
  "x \<le> y \<Longrightarrow> round64 x = Some a \<Longrightarrow> round64 y = Some b \<Longrightarrow> a \<le> b"
  using rnd_mono[of x y] by (auto simp: round64_def split: if_splits)

lemma round64_nonneg: "0 \<le> x \<Longrightarrow> round64 x = Some a \<Longrightarrow> 0 \<le> a"
  using rnd_nonneg[of x] by (auto simp: round64_def split: if_splits)

lemma le64_simps:
  "le64 None b" "le64 a None" "le64 (Some x) (Some y) = (x \<le> y)"
  by (simp_all add: le64_def split: option.splits)

lemma nonneg64_simps: "nonneg64 None" "nonneg64 (Some x) = (0 \<le> x)"
  by (simp_all add: nonneg64_def)

lemma f64_ops_simps:
  "fadd (Some x) (Some y) = round64 (x + y)" "fadd None b = None" "fadd a None = None"
  "fmul (Some x) (Some y) = round64 (x * y)" "fmul None b = None" "fmul a None = None"
  "y \<noteq> 0 \<Longrightarrow> fdiv (Some x) y = round64 (x / y)" "fdiv None y = None"
  by (simp_all add: fadd_def fmul_def fdiv_def split: option.splits)

lemma le64_round64: "x \<le> y \<Longrightarrow> le64 (round64 x) (round64 y)"
  using round64_mono[of x y] by (auto simp: le64_def split: option.splits)

lemma nonneg64_round64: "0 \<le> x \<Longrightarrow> nonneg64 (round64 x)"
  using round64_nonneg[of x] by (auto simp: nonneg64_def split: option.splits)

lemma nonneg64_lit: "0 \<le> x \<Longrightarrow> nonneg64 (lit x)"
  by (simp add: lit_def nonneg64_round64)

lemma nonneg64_fadd: "nonneg64 a \<Longrightarrow> nonneg64 b \<Longrightarrow> nonneg64 (fadd a b)"
  by (cases a; cases b) (simp_all add: f64_ops_simps nonneg64_simps nonneg64_round64)

lemma nonneg64_fmul: "nonneg64 a \<Longrightarrow> nonneg64 b \<Longrightarrow> nonneg64 (fmul a b)"
  by (cases a; cases b) (simp_all add: f64_ops_simps nonneg64_simps nonneg64_round64)

lemma nonneg64_fdiv: "nonneg64 a \<Longrightarrow> 0 < y \<Longrightarrow> nonneg64 (fdiv a y)"
  by (cases a) (simp_all add: f64_ops_simps nonneg64_simps nonneg64_round64)

lemma le64_fdiv: "le64 a b \<Longrightarrow> 0 < y \<Longrightarrow> le64 (fdiv a y) (fdiv b y)"
  by (cases a; cases b)
     (simp_all add: f64_ops_simps le64_simps le64_round64 divide_right_mono)

lemma le64_fmul: "nonneg64 k \<Longrightarrow> le64 a b \<Longrightarrow> le64 (fmul k a) (fmul k b)"
  by (cases k; cases a; cases b)
     (simp_all add: f64_ops_simps le64_simps nonneg64_simps le64_round64 mult_left_mono)

lemma le64_fadd: "le64 a b \<Longrightarrow> le64 (fadd a c) (fadd b c)"
  by (cases a; cases b; cases c)
     (simp_all add: f64_ops_simps le64_simps le64_round64)

text \<open>
  The steps of \<open>calculateRequiredW64\<close> at 5000 m, 1200 s and 75 kg, for the elevations 12.5,
  the next binary64 number above 12.5, -100 and 0: each rounded result with its exponent.
\<close>

lemma binary64_step1: "lit PHYSICS_g = Some (5522539043063071 / 2 ^ 49)"
  unfolding PHYSICS_g_def
  by (rule lit_evalI[where j = 49 and n = "5522539043063071"])
     (simp_all add: round_even_def Let_def)

lemma binary64_step2: "lit PHYSICS_bikeMass = Some 8"
  unfolding PHYSICS_bikeMass_def
  by (rule lit_evalI[where j = 49 and n = "4503599627370496"])
     (simp_all add: round_even_def Let_def)

lemma binary64_step3: "lit PHYSICS_Crr = Some (1152921504606847 / 2 ^ 58)"
  unfolding PHYSICS_Crr_def
  by (rule lit_evalI[where j = 60 and n = "4611686018427388"])
     (simp_all add: round_even_def Let_def)

lemma binary64_step4: "lit 0.5 = Some (1 / 2 ^ 1)"
  by (rule lit_evalI[where j = 53 and n = "4503599627370496"])
     (simp_all add: round_even_def Let_def)

lemma binary64_step5: "lit PHYSICS_rho = Some (5404319552844595 / 2 ^ 52)"
  unfolding PHYSICS_rho_def
  by (rule lit_evalI[where j = 52 and n = "5404319552844595"])
     (simp_all add: round_even_def Let_def)

lemma binary64_step6: "lit PHYSICS_CdA = Some (1261007895663739 / 2 ^ 52)"
  unfolding PHYSICS_CdA_def
  by (rule lit_evalI[where j = 54 and n = "5044031582654956"])
     (simp_all add: round_even_def Let_def)

lemma binary64_step7: "lit PHYSICS_eta = Some (2206763817411543 / 2 ^ 51)"
  unfolding PHYSICS_eta_def
  by (rule lit_evalI[where j = 53 and n = "8827055269646172"])
     (simp_all add: round_even_def Let_def)

lemma binary64_step8: "fdiv (Some 5000) 1200 = Some (4691249611844267 / 2 ^ 50)"
  by (rule fdiv_evalI[where j = 50 and n = "4691249611844267"])
     (simp_all add: round_even_def Let_def)

lemma binary64_step9: "fdiv (Some (25 / 2)) 5000 = Some (5764607523034235 / 2 ^ 61)"
  by (rule fdiv_evalI[where j = 61 and n = "5764607523034235"])
     (simp_all add: round_even_def Let_def)

lemma binary64_step10: "fadd (Some 75) (Some 8) = Some 83"
  by (rule fadd_evalI[where j = 46 and n = "5840605766746112"])
     (simp_all add: round_even_def Let_def)

lemma binary64_step11: "fmul (Some 83) (Some (5522539043063071 / 2 ^ 49)) = Some (1790510705368105 / 2 ^ 41)"
  by (rule fmul_evalI[where j = 43 and n = "7162042821472420"])
     (simp_all add: round_even_def Let_def)

lemma binary64_step12: "fmul (Some (1790510705368105 / 2 ^ 41)) (Some (4691249611844267 / 2 ^ 50)) = Some (7460461272367105 / 2 ^ 41)"
  by (rule fmul_evalI[where j = 41 and n = "7460461272367105"])
     (simp_all add: round_even_def Let_def)

lemma binary64_step13: "fmul (Some (7460461272367105 / 2 ^ 41)) (Some (5764607523034235 / 2 ^ 61)) = Some (4774695214314947 / 2 ^ 49)"
  by (rule fmul_evalI[where j = 49 and n = "4774695214314947"])
     (simp_all add: round_even_def Let_def)

lemma binary64_step14: "fmul (Some (7460461272367105 / 2 ^ 41)) (Some (1152921504606847 / 2 ^ 58)) = Some (1909878085725979 / 2 ^ 47)"
  by (rule fmul_evalI[where j = 49 and n = "7639512342903916"])
     (simp_all add: round_even_def Let_def)

lemma binary64_step15: "fmul (Some (1 / 2 ^ 1)) (Some (5404319552844595 / 2 ^ 52)) = Some (5404319552844595 / 2 ^ 53)"
  by (rule fmul_evalI[where j = 53 and n = "5404319552844595"])
     (simp_all add: round_even_def Let_def)

lemma binary64_step16: "fmul (Some (5404319552844595 / 2 ^ 53)) (Some (1261007895663739 / 2 ^ 52)) = Some (6052837899185947 / 2 ^ 55)"
  by (rule fmul_evalI[where j = 55 and n = "6052837899185947"])
     (simp_all add: round_even_def Let_def)

lemma binary64_step17: "fmul (Some (6052837899185947 / 2 ^ 55)) (Some (4691249611844267 / 2 ^ 50)) = Some (6305039478318695 / 2 ^ 53)"
  by (rule fmul_evalI[where j = 53 and n = "6305039478318695"])
     (simp_all add: round_even_def Let_def)

lemma binary64_step18: "fmul (Some (6305039478318695 / 2 ^ 53)) (Some (4691249611844267 / 2 ^ 50)) = Some (3283874728290987 / 2 ^ 50)"
  by (rule fmul_evalI[where j = 51 and n = "6567749456581974"])
     (simp_all add: round_even_def Let_def)

lemma binary64_step19: "fmul (Some (3283874728290987 / 2 ^ 50)) (Some (4691249611844267 / 2 ^ 50)) = Some (6841405683939557 / 2 ^ 49)"
  by (rule fmul_evalI[where j = 49 and n = "6841405683939557"])
     (simp_all add: round_even_def Let_def)

lemma binary64_step20: "fadd (Some (4774695214314947 / 2 ^ 49)) (Some (1909878085725979 / 2 ^ 47)) = Some (775887972326179 / 2 ^ 45)"
  by (rule fadd_evalI[where j = 48 and n = "6207103778609432"])
     (simp_all add: round_even_def Let_def)

lemma binary64_step21: "fadd (Some (775887972326179 / 2 ^ 45)) (Some (6841405683939557 / 2 ^ 49)) = Some (4813903310289605 / 2 ^ 47)"
  by (rule fadd_evalI[where j = 47 and n = "4813903310289605"])
     (simp_all add: round_even_def Let_def)

lemma binary64_step22: "fdiv (Some (4813903310289605 / 2 ^ 47)) (2206763817411543 / 2 ^ 51) = Some (4912146234989393 / 2 ^ 47)"
  by (rule fdiv_evalI[where j = 47 and n = "4912146234989393"])
     (simp_all add: round_even_def Let_def)

lemma binary64_step23: "fdiv (Some (4912146234989393 / 2 ^ 47)) 75 = Some (2095849060262141 / 2 ^ 52)"
  by (rule fdiv_evalI[where j = 54 and n = "8383396241048564"])
     (simp_all add: round_even_def Let_def)

lemma binary64_step24: "fdiv (Some (25 / 2 + 1 / 2 ^ 49)) 5000 = Some (1441151880758559 / 2 ^ 59)"
  by (rule fdiv_evalI[where j = 61 and n = "5764607523034236"])
     (simp_all add: round_even_def Let_def)

lemma binary64_step25: "fmul (Some (7460461272367105 / 2 ^ 41)) (Some (1441151880758559 / 2 ^ 59)) = Some (1193673803578737 / 2 ^ 47)"
  by (rule fmul_evalI[where j = 49 and n = "4774695214314948"])
     (simp_all add: round_even_def Let_def)

lemma binary64_step26: "fadd (Some (1193673803578737 / 2 ^ 47)) (Some (1909878085725979 / 2 ^ 47)) = Some (775887972326179 / 2 ^ 45)"
  by (rule fadd_evalI[where j = 48 and n = "6207103778609432"])
     (simp_all add: round_even_def Let_def)

lemma binary64_step27: "fdiv (Some (- 100)) 5000 = Some (- 5764607523034235 / 2 ^ 58)"
  by (rule fdiv_evalI[where j = 58 and n = "- 5764607523034235"])
     (simp_all add: round_even_def Let_def)

lemma binary64_step28: "fmul (Some (7460461272367105 / 2 ^ 41)) (Some (- 5764607523034235 / 2 ^ 58)) = Some (- 4774695214314947 / 2 ^ 46)"
  by (rule fmul_evalI[where j = 46 and n = "- 4774695214314947"])
     (simp_all add: round_even_def Let_def)

lemma binary64_step29: "fadd (Some (- 4774695214314947 / 2 ^ 46)) (Some (1909878085725979 / 2 ^ 47)) = Some (- 7639512342903915 / 2 ^ 47)"
  by (rule fadd_evalI[where j = 47 and n = "- 7639512342903915"])
     (simp_all add: round_even_def Let_def)

lemma binary64_step30: "fadd (Some (- 7639512342903915 / 2 ^ 47)) (Some (6841405683939557 / 2 ^ 49)) = Some (- 2964580460959513 / 2 ^ 46)"
  by (rule fadd_evalI[where j = 47 and n = "- 5929160921919026"])
     (simp_all add: round_even_def Let_def)

lemma binary64_step31: "fdiv (Some (- 2964580460959513 / 2 ^ 46)) (2206763817411543 / 2 ^ 51) = Some (- 6050164206039823 / 2 ^ 47)"
  by (rule fdiv_evalI[where j = 47 and n = "- 6050164206039823"])
     (simp_all add: round_even_def Let_def)

lemma binary64_step32: "fdiv (Some (- 6050164206039823 / 2 ^ 47)) 75 = Some (- 2581403394576991 / 2 ^ 52)"
  by (rule fdiv_evalI[where j = 53 and n = "- 5162806789153982"])
     (simp_all add: round_even_def Let_def)

lemma binary64_step33: "fdiv (Some 0) 5000 = Some 0"
  by (simp add: fdiv_def)

lemma binary64_step34: "fmul (Some (7460461272367105 / 2 ^ 41)) (Some 0) = Some 0"
  by (simp add: fmul_def)

lemma binary64_step35: "fadd (Some 0) (Some (1909878085725979 / 2 ^ 47)) = Some (1909878085725979 / 2 ^ 47)"
  by (rule fadd_evalI[where j = 49 and n = "7639512342903916"])
     (simp_all add: round_even_def Let_def)

lemma binary64_step36: "fadd (Some (1909878085725979 / 2 ^ 47)) (Some (6841405683939557 / 2 ^ 49)) = Some (905057376677717 / 2 ^ 45)"
  by (rule fadd_evalI[where j = 48 and n = "7240459013421736"])
     (simp_all add: round_even_def Let_def)

lemma binary64_step37: "fdiv (Some (905057376677717 / 2 ^ 45)) (2206763817411543 / 2 ^ 51) = Some (1847055870770851 / 2 ^ 46)"
  by (rule fdiv_evalI[where j = 48 and n = "7388223483083404"])
     (simp_all add: round_even_def Let_def)

lemma binary64_step38: "fdiv (Some (1847055870770851 / 2 ^ 46)) 75 = Some (6304617372231171 / 2 ^ 54)"
  by (rule fdiv_evalI[where j = 54 and n = "6304617372231171"])
     (simp_all add: round_even_def Let_def)

lemmas binary64_steps = binary64_step1 binary64_step2 binary64_step3 binary64_step4
  binary64_step5 binary64_step6 binary64_step7 binary64_step8 binary64_step9 binary64_step10
  binary64_step11 binary64_step12 binary64_step13 binary64_step14 binary64_step15
  binary64_step16 binary64_step17 binary64_step18 binary64_step19 binary64_step20
  binary64_step21 binary64_step22 binary64_step23 binary64_step24 binary64_step25
  binary64_step26 binary64_step27 binary64_step28 binary64_step29 binary64_step30
  binary64_step31 binary64_step32 binary64_step33 binary64_step34 binary64_step35
  binary64_step36 binary64_step37 binary64_step38

lemma calculateRequiredW64_e12_5:
  "calculateRequiredW64 5000 (25 / 2) 1200 75 =
     \<lparr>P_total64 = Some (4912146234989393 / 2 ^ 47),
      P_totalWkg64 = Some (2095849060262141 / 2 ^ 52)\<rparr>"
  unfolding calculateRequiredW64_def Let_def
  by (simp only: binary64_steps option.case)

lemma calculateRequiredW64_e12_5_next:
  "calculateRequiredW64 5000 (25 / 2 + 1 / 2 ^ 49) 1200 75 =
     \<lparr>P_total64 = Some (4912146234989393 / 2 ^ 47),
      P_totalWkg64 = Some (2095849060262141 / 2 ^ 52)\<rparr>"
  unfolding calculateRequiredW64_def Let_def
  by (simp only: binary64_steps option.case)

lemma calculateRequiredW64_downhill:
  "calculateRequiredW64 5000 (- 100) 1200 75 =
     \<lparr>P_total64 = Some (- 6050164206039823 / 2 ^ 47),
      P_totalWkg64 = Some (- 2581403394576991 / 2 ^ 52)\<rparr>"
  unfolding calculateRequiredW64_def Let_def
  by (simp only: binary64_steps option.case)

lemma calculateRequiredW64_flat:
  "calculateRequiredW64 5000 0 1200 75 =
     \<lparr>P_total64 = Some (1847055870770851 / 2 ^ 46),
      P_totalWkg64 = Some (6304617372231171 / 2 ^ 54)\<rparr>"
  unfolding calculateRequiredW64_def Let_def
  by (simp only: binary64_steps option.case)

lemma P_total64_mono:
  assumes "0 < d" "0 < t" "0 < m" "e1 \<le> e2"
    and "P_total64 (calculateRequiredW64 d e1 t m) = Some p1"
    and "P_total64 (calculateRequiredW64 d e2 t m) = Some p2"
  shows "p1 \<le> p2"
proof -
  define k where "k = fmul (fmul (fadd (Some m) (lit PHYSICS_bikeMass)) (lit PHYSICS_g)) (fdiv (Some d) t)"
  define pr where "pr = fmul k (lit PHYSICS_Crr)"
  define pa where "pa = fmul (fmul (fmul (fmul (fmul (lit 0.5) (lit PHYSICS_rho)) (lit PHYSICS_CdA))
      (fdiv (Some d) t)) (fdiv (Some d) t)) (fdiv (Some d) t)"
  have eta: "lit PHYSICS_eta = Some (2206763817411543 / 2 ^ 51)"
    by (rule binary64_step7)
  have pt: "P_total64 (calculateRequiredW64 d e t m) =
      fdiv (fadd (fadd (fmul k (fdiv (Some e) d)) pr) pa) (2206763817411543 / 2 ^ 51)" for e
    by (simp only: calculateRequiredW64_def Let_def eta k_def pr_def pa_def option.case
          power_result64.select_convs)
  have "nonneg64 (fadd (Some m) (lit PHYSICS_bikeMass))"
    using assms(3)
    by (intro nonneg64_fadd nonneg64_lit) (simp_all add: nonneg64_simps PHYSICS_bikeMass_def)
  moreover have "nonneg64 (fdiv (Some d) t)"
    using assms(1,2) by (intro nonneg64_fdiv) (simp_all add: nonneg64_simps)
  ultimately have "nonneg64 k"
    unfolding k_def by (intro nonneg64_fmul nonneg64_lit) (simp_all add: PHYSICS_g_def)
  moreover have "le64 (fdiv (Some e1) d) (fdiv (Some e2) d)"
    using assms(1,4) by (intro le64_fdiv) (simp_all add: le64_simps)
  ultimately have "le64 (fmul k (fdiv (Some e1) d)) (fmul k (fdiv (Some e2) d))"
    by (rule le64_fmul)
  then have "le64 (fadd (fadd (fmul k (fdiv (Some e1) d)) pr) pa)
                  (fadd (fadd (fmul k (fdiv (Some e2) d)) pr) pa)"
    by (intro le64_fadd)
  then have "le64 (P_total64 (calculateRequiredW64 d e1 t m))
                  (P_total64 (calculateRequiredW64 d e2 t m))"
    unfolding pt by (rule le64_fdiv) simp
  then show ?thesis
    using assms(5,6) by (simp add: le64_simps)
qed

text \<open>
  Claim C9, as stated, fails: the order is not strict. At 5000 m in 20:00 at 75 kg the
  elevation gains 12.5 and \<open>12.5 + 2 ^ -49\<close> (12.500000000000002, the next binary64
  number) get the same required power, 4912146234989393 / 2 ^ 47 W
  (34.90289824263039): the sum with the rolling power rounds the difference away.
\<close>

theorem requiredPower_tie_counterexample:
  "(25 / 2 :: real) < 25 / 2 + 1 / 2 ^ 49
   \<and> P_total64 (calculateRequiredW64 5000 (25 / 2) 1200 75)
       = Some (4912146234989393 / 2 ^ 47)
   \<and> P_total64 (calculateRequiredW64 5000 (25 / 2 + 1 / 2 ^ 49) 1200 75)
       = Some (4912146234989393 / 2 ^ 47)"
  unfolding calculateRequiredW64_e12_5 calculateRequiredW64_e12_5_next by simp

text \<open>
  Claim C9, amended. With distance, duration and rider mass fixed (all positive), the
  required power is monotone in the elevation gain, not strictly: a smaller gain never
  gives a larger power. This holds of the exact formula, where both results are valid
  and \<open>komPower\<close> is the value of the formula as it is, not clamped; and it holds of the
  binary64 computation whenever both powers are finite. For -100 m over 5000 m in 20:00
  at 75 kg the result is valid, its class is \<open>easy\<close>, and its power is negative and
  strictly below the power of the flat segment: -379163 / 8820 W by the exact formula,
  and -42.9890022675737 W against 26.24824263038549 W in binary64.
\<close>

theorem requiredPower_monotone:
  "(0 < distance \<and> 0 < riderMass \<and> parseKomTime (Str komTime) = Inr (Val (Integer t)) \<and> 0 < t
      \<and> e1 \<le> e2
    \<longrightarrow> (\<exists>r1 r2.
          calculateSegmentDifficulty (Val distance) (Val e1) (Str komTime) (Val riderMass) = Inr r1
        \<and> calculateSegmentDifficulty (Val distance) (Val e2) (Str komTime) (Val riderMass) = Inr r2
        \<and> isValid r1 \<and> isValid r2
        \<and> komPower r1 = Val (P_total (calculateRequiredW distance e1 (of_int t) riderMass))
        \<and> komPower r2 = Val (P_total (calculateRequiredW distance e2 (of_int t) riderMass))
        \<and> P_total (calculateRequiredW distance e1 (of_int t) riderMass)
            \<le> P_total (calculateRequiredW distance e2 (of_int t) riderMass)))
   \<and> (0 < distance \<and> 0 < timeSeconds \<and> 0 < riderMass \<and> e1 \<le> e2
      \<and> P_total64 (calculateRequiredW64 distance e1 timeSeconds riderMass) = Some p1
      \<and> P_total64 (calculateRequiredW64 distance e2 timeSeconds riderMass) = Some p2
    \<longrightarrow> p1 \<le> p2)
   \<and> (\<exists>r. calculateSegmentDifficulty (Val 5000) (Val (- 100)) (Str (ascii ''20:00'')) (Val 75)
             = Inr r
          \<and> isValid r \<and> komPower r = Val (- (379163 / 8820))
          \<and> class_tag (difficultyClass r) = ascii ''easy'')
   \<and> P_total64 (calculateRequiredW64 5000 (- 100) 1200 75)
       = Some (- (6050164206039823 / 2 ^ 47))
   \<and> P_total64 (calculateRequiredW64 5000 0 1200 75) = Some (1847055870770851 / 2 ^ 46)
   \<and> - (6050164206039823 / 2 ^ 47) < (0::real)
   \<and> - (6050164206039823 / 2 ^ 47) < (1847055870770851 / 2 ^ 46 :: real)"
proof (intro conjI impI)
  assume h: "0 < distance \<and> 0 < riderMass
      \<and> parseKomTime (Str komTime) = Inr (Val (Integer t)) \<and> 0 < t \<and> e1 \<le> e2"
  then have s: "0 < distance" "0 < riderMass"
      "parseKomTime (Str komTime) = Inr (Val (Integer t))" "0 < t"
    by simp_all
  have "P_total (calculateRequiredW distance e1 (of_int t) riderMass)
            \<le> P_total (calculateRequiredW distance e2 (of_int t) riderMass)"
  proof (cases "e1 = e2")
    case False
    then have "e1 < e2" using h by simp
    then show ?thesis
      using h by (intro less_imp_le P_total_strict_mono) simp_all
  qed simp
  then show "\<exists>r1 r2.
          calculateSegmentDifficulty (Val distance) (Val e1) (Str komTime) (Val riderMass) = Inr r1
        \<and> calculateSegmentDifficulty (Val distance) (Val e2) (Str komTime) (Val riderMass) = Inr r2
        \<and> isValid r1 \<and> isValid r2
        \<and> komPower r1 = Val (P_total (calculateRequiredW distance e1 (of_int t) riderMass))
        \<and> komPower r2 = Val (P_total (calculateRequiredW distance e2 (of_int t) riderMass))
        \<and> P_total (calculateRequiredW distance e1 (of_int t) riderMass)
            \<le> P_total (calculateRequiredW distance e2 (of_int t) riderMass)"
    unfolding calculateSegmentDifficulty_scoreable[OF s] by simp
next
  assume "0 < distance \<and> 0 < timeSeconds \<and> 0 < riderMass \<and> e1 \<le> e2
      \<and> P_total64 (calculateRequiredW64 distance e1 timeSeconds riderMass) = Some p1
      \<and> P_total64 (calculateRequiredW64 distance e2 timeSeconds riderMass) = Some p2"
  then show "p1 \<le> p2"
    using P_total64_mono[of distance timeSeconds riderMass e1 e2 p1 p2] by blast
next
  show "\<exists>r. calculateSegmentDifficulty (Val 5000) (Val (- 100)) (Str (ascii ''20:00'')) (Val 75)
             = Inr r
          \<and> isValid r \<and> komPower r = Val (- (379163 / 8820))
          \<and> class_tag (difficultyClass r) = ascii ''easy''"
    unfolding downhill_result by (simp add: getDifficultyClass_class)
next
  show "P_total64 (calculateRequiredW64 5000 (- 100) 1200 75)
       = Some (- (6050164206039823 / 2 ^ 47))"
    unfolding calculateRequiredW64_downhill by simp
next
  show "P_total64 (calculateRequiredW64 5000 0 1200 75) = Some (1847055870770851 / 2 ^ 46)"
    unfolding calculateRequiredW64_flat by simp
qed simp_all

theorem requiredPower_monotone_witness:
  "(\<exists>r1 r2.
      calculateSegmentDifficulty (Val 5000) (Val (- 100)) (Str (ascii ''20:00'')) (Val 75) = Inr r1
    \<and> calculateSegmentDifficulty (Val 5000) (Val 0) (Str (ascii ''20:00'')) (Val 75) = Inr r2
    \<and> isValid r1 \<and> isValid r2
    \<and> komPower r1 = Val (P_total (calculateRequiredW 5000 (- 100) 1200 75))
    \<and> komPower r2 = Val (P_total (calculateRequiredW 5000 0 1200 75))
    \<and> P_total (calculateRequiredW 5000 (- 100) 1200 75)
        \<le> P_total (calculateRequiredW 5000 0 1200 75))
   \<and> (\<exists>p1 p2. P_total64 (calculateRequiredW64 5000 (- 100) 1200 75) = Some p1
        \<and> P_total64 (calculateRequiredW64 5000 0 1200 75) = Some p2 \<and> p1 \<le> p2)"
proof -
  note m = requiredPower_monotone[where distance = 5000 and riderMass = 75
      and komTime = "ascii ''20:00''" and t = 1200 and ?e1.0 = "- 100" and ?e2.0 = 0
      and timeSeconds = 1200 and ?p1.0 = "- (6050164206039823 / 2 ^ 47)"
      and ?p2.0 = "1847055870770851 / 2 ^ 46"]
  have h: "(0::real) < 5000 \<and> (0::real) < 75
      \<and> parseKomTime (Str (ascii ''20:00'')) = Inr (Val (Integer 1200)) \<and> (0::int) < 1200
      \<and> (- 100::real) \<le> 0"
    using parseKomTime_20_00 by simp
  have a: "\<exists>r1 r2.
      calculateSegmentDifficulty (Val 5000) (Val (- 100)) (Str (ascii ''20:00'')) (Val 75) = Inr r1
    \<and> calculateSegmentDifficulty (Val 5000) (Val 0) (Str (ascii ''20:00'')) (Val 75) = Inr r2
    \<and> isValid r1 \<and> isValid r2
    \<and> komPower r1 = Val (P_total (calculateRequiredW 5000 (- 100) 1200 75))
    \<and> komPower r2 = Val (P_total (calculateRequiredW 5000 0 1200 75))
    \<and> P_total (calculateRequiredW 5000 (- 100) 1200 75)
        \<le> P_total (calculateRequiredW 5000 0 1200 75)"
    using m h by simp
  have g: "(0::real) < 5000 \<and> (0::real) < 1200 \<and> (0::real) < 75 \<and> (- 100::real) \<le> 0
      \<and> P_total64 (calculateRequiredW64 5000 (- 100) 1200 75)
          = Some (- (6050164206039823 / 2 ^ 47))
      \<and> P_total64 (calculateRequiredW64 5000 0 1200 75) = Some (1847055870770851 / 2 ^ 46)"
    unfolding calculateRequiredW64_downhill calculateRequiredW64_flat by simp
  have b: "\<exists>p1 p2. P_total64 (calculateRequiredW64 5000 (- 100) 1200 75) = Some p1
        \<and> P_total64 (calculateRequiredW64 5000 0 1200 75) = Some p2 \<and> p1 \<le> p2"
    using m g by blast
  from a b show ?thesis by blast
qed

subsection \<open>The wrapper\<close>

lemma getSegmentDifficulty_distance:
  "js_or (opt_chain (details seg) details_distance) (opt_chain (data seg) data_distance)
     = normalized_distance seg"
  by (cases "details seg"; cases "data seg")
     (auto simp: js_or_def normalized_distance_def details_field_def data_field_def
           split: nullable.splits)

lemma getSegmentDifficulty_elevation:
  "js_coalesce (js_coalesce (opt_chain (data seg) data_elev_difference)
                            (opt_chain (details seg) details_total_elevation_gain)) (Val 0)
     = normalized_elevation seg"
  by (cases "details seg"; cases "data seg")
     (auto simp: js_coalesce_def normalized_elevation_def details_field_def data_field_def
           split: nullable.splits)

lemma getSegmentDifficulty_komTime:
  "opt_chain_val (opt_chain (details seg) details_xoms) xoms_kom = normalized_komTime seg"
  by (cases "details seg") (auto simp: normalized_komTime_def split: nullable.splits)

lemma normalized_elevation_present: "\<exists>e. normalized_elevation seg = Val e"
  by (simp add: normalized_elevation_def split: nullable.splits)

lemma normalized_elevation_missing:
  "missing_elevation seg \<Longrightarrow> normalized_elevation seg = Val 0"
  by (auto simp: missing_elevation_def normalized_elevation_def split: nullable.splits)

text \<open>
  Claim C10. For every segment record \<open>getSegmentDifficulty\<close> scores the normalized
  inputs: the distance is \<open>details.distance\<close> when truthy and \<open>data.distance\<close>
  otherwise; the elevation is \<open>data.elev_difference\<close> when present, otherwise
  \<open>details.total_elevation_gain\<close>, otherwise 0; the time is \<open>details.xoms.kom\<close>. The
  elevation passed on is always a number, so a record with neither elevation field is
  scored with elevation 0 and, when its distance, time and rider mass are scoreable, gets
  a valid result.
\<close>

theorem getSegmentDifficulty_normalizes:
  "getSegmentDifficulty seg riderMass =
     calculateSegmentDifficulty (normalized_distance seg) (normalized_elevation seg)
       (normalized_komTime seg) riderMass
   \<and> (\<exists>e. normalized_elevation seg = Val e)
   \<and> (missing_elevation seg \<longrightarrow>
        getSegmentDifficulty seg riderMass =
          calculateSegmentDifficulty (normalized_distance seg) (Val 0)
            (normalized_komTime seg) riderMass)
   \<and> (missing_elevation seg \<and> normalized_distance seg = Val d \<and> 0 < d
        \<and> riderMass = Val m \<and> 0 < m \<and> normalized_komTime seg = Str s
        \<and> parseKomTime (Str s) = Inr (Val (Integer t)) \<and> 0 < t
      \<longrightarrow> (\<exists>r. getSegmentDifficulty seg riderMass = Inr r \<and> isValid r))"
proof -
  have eq: "getSegmentDifficulty seg riderMass =
     calculateSegmentDifficulty (normalized_distance seg) (normalized_elevation seg)
       (normalized_komTime seg) riderMass"
    unfolding getSegmentDifficulty_def Let_def getSegmentDifficulty_distance
      getSegmentDifficulty_elevation getSegmentDifficulty_komTime
    by (rule refl)
  have miss: "missing_elevation seg \<longrightarrow>
        getSegmentDifficulty seg riderMass =
          calculateSegmentDifficulty (normalized_distance seg) (Val 0)
            (normalized_komTime seg) riderMass"
    using eq normalized_elevation_missing by simp
  have valid: "missing_elevation seg \<and> normalized_distance seg = Val d \<and> 0 < d
        \<and> riderMass = Val m \<and> 0 < m \<and> normalized_komTime seg = Str s
        \<and> parseKomTime (Str s) = Inr (Val (Integer t)) \<and> 0 < t
      \<longrightarrow> (\<exists>r. getSegmentDifficulty seg riderMass = Inr r \<and> isValid r)"
  proof
    assume h: "missing_elevation seg \<and> normalized_distance seg = Val d \<and> 0 < d
        \<and> riderMass = Val m \<and> 0 < m \<and> normalized_komTime seg = Str s
        \<and> parseKomTime (Str s) = Inr (Val (Integer t)) \<and> 0 < t"
    then have s: "0 < d" "0 < m" "parseKomTime (Str s) = Inr (Val (Integer t))" "0 < t"
      by simp_all
    have "getSegmentDifficulty seg riderMass =
        calculateSegmentDifficulty (Val d) (Val 0) (Str s) (Val m)"
      using h miss by simp
    then show "\<exists>r. getSegmentDifficulty seg riderMass = Inr r \<and> isValid r"
      unfolding calculateSegmentDifficulty_scoreable[OF s] by simp
  qed
  show ?thesis
    using eq miss valid normalized_elevation_present by blast
qed

theorem getSegmentDifficulty_normalizes_witness:
  "getSegmentDifficulty
     \<lparr>data = Val \<lparr>data_distance = Val 5000, data_elev_difference = Undefined\<rparr>,
      details = Val \<lparr>details_distance = Undefined, details_total_elevation_gain = Null,
                     details_xoms = Val \<lparr>xoms_kom = Str (ascii ''20:00'')\<rparr>\<rparr>\<rparr> (Val 75)
     = calculateSegmentDifficulty (Val 5000) (Val 0) (Str (ascii ''20:00'')) (Val 75)
   \<and> (\<exists>r. getSegmentDifficulty
     \<lparr>data = Val \<lparr>data_distance = Val 5000, data_elev_difference = Undefined\<rparr>,
      details = Val \<lparr>details_distance = Undefined, details_total_elevation_gain = Null,
                     details_xoms = Val \<lparr>xoms_kom = Str (ascii ''20:00'')\<rparr>\<rparr>\<rparr> (Val 75) = Inr r
         \<and> isValid r)"
proof -
  let ?seg = "\<lparr>data = Val \<lparr>data_distance = Val 5000, data_elev_difference = Undefined\<rparr>,
      details = Val \<lparr>details_distance = Undefined, details_total_elevation_gain = Null,
                     details_xoms = Val \<lparr>xoms_kom = Str (ascii ''20:00'')\<rparr>\<rparr>\<rparr>"
  have m: "missing_elevation ?seg"
    by (simp add: missing_elevation_def data_field_def details_field_def)
  have d: "normalized_distance ?seg = Val 5000"
    by (simp add: normalized_distance_def data_field_def details_field_def)
  have k: "normalized_komTime ?seg = Str (ascii ''20:00'')"
    by (simp add: normalized_komTime_def)
  have h: "missing_elevation ?seg \<and> normalized_distance ?seg = Val 5000 \<and> (0::real) < 5000
        \<and> Val 75 = Val (75::real) \<and> (0::real) < 75
        \<and> normalized_komTime ?seg = Str (ascii ''20:00'')
        \<and> parseKomTime (Str (ascii ''20:00'')) = Inr (Val (Integer 1200)) \<and> (0::int) < 1200"
    using m d k parseKomTime_20_00 by simp
  note n = getSegmentDifficulty_normalizes[of ?seg "Val 75" 5000 75 "ascii ''20:00''" 1200]
  have a: "getSegmentDifficulty ?seg (Val 75) =
      calculateSegmentDifficulty (normalized_distance ?seg) (Val 0) (normalized_komTime ?seg)
        (Val 75)"
    using n m by blast
  have b: "\<exists>r. getSegmentDifficulty ?seg (Val 75) = Inr r \<and> isValid r"
    using n h by blast
  show ?thesis
    using a[unfolded d k] b by blast
qed

end
